theory Spec2Isabelle
  imports Complex_Main "HOL-Library.Multiset"
begin

section \<open>Python values, exceptions and indexing\<close>

text \<open>
  The script \<^verbatim>\<open>app.py\<close> is one linear Streamlit page. Its effects are the Streamlit
  calls it makes, in order; the embedding returns them as a list of events together
  with the way the run ended. Everything outside the script (the import of joblib, the
  artifact on disk, the loaded classifier, the user's widget entries, the button) is a
  field of an environment record.

  Exceptions are values. The classes listed are the ones the script's handlers tell
  apart; each stands for the class and its subclasses, and all of them derive from
  Python's \<^verbatim>\<open>Exception\<close>. The string is the text of \<^verbatim>\<open>str(e)\<close>.
  Numbers coming out of the classifier are modelled as reals (every finite float is
  one); integers entered in the form are \<^typ>\<open>int\<close>.
\<close>

datatype exc_class =
  ImportError | AttributeError | KeyError | IndexError | ValueError | OtherException

datatype exc = Exc exc_class string

fun str_exc :: "exc \<Rightarrow> string" where
  "str_exc (Exc c msg) = msg"

fun is_AttributeError :: "exc \<Rightarrow> bool" where
  "is_AttributeError (Exc c msg) = (c = AttributeError)"

fun is_ImportError :: "exc \<Rightarrow> bool" where
  "is_ImportError (Exc c msg) = (c = ImportError)"

definition digit_char :: "nat \<Rightarrow> char" where
  "digit_char d = ''0123456789'' ! d"

fun digits :: "nat \<Rightarrow> string" where
  "digits n = (if n < 10 then [digit_char n] else digits (n div 10) @ [digit_char (n mod 10)])"

declare digits.simps [simp del]

text \<open>
  \<^verbatim>\<open>a[i]\<close> on an array, for a non-negative constant index: out of range raises
  IndexError (the wording is numpy's).
\<close>

definition getitem :: "'a list \<Rightarrow> nat \<Rightarrow> exc + 'a" where
  "getitem xs i =
     (if i < length xs then Inr (xs ! i)
      else Inl (Exc IndexError (''index '' @ digits i @ '' is out of bounds for axis 0 with size ''
                                @ digits (length xs))))"

section \<open>Dictionaries and the single-row data frame\<close>

text \<open>
  A Python dict keeps insertion order: it is an association list with distinct keys.
  \<^verbatim>\<open>d[k] = v\<close> replaces the value in place when the key exists and appends the pair
  otherwise.
\<close>

fun dict_set :: "('k \<times> 'v) list \<Rightarrow> 'k \<Rightarrow> 'v \<Rightarrow> ('k \<times> 'v) list" where
  "dict_set [] k v = [(k, v)]"
| "dict_set ((k', v') # d) k v = (if k' = k then (k, v) # d else (k', v') # dict_set d k v)"

text \<open>
  \<^verbatim>\<open>pd.DataFrame([inputs])\<close> is a frame of one row whose columns are the keys of the
  dict in their order. \<^verbatim>\<open>df[cols]\<close> with a list of labels builds the frame of
  exactly these columns in the order of the list, and raises KeyError when a label is not
  a column. The text of \<^verbatim>\<open>str(e)\<close> is the \<^verbatim>\<open>repr\<close> of pandas' message: the list of the
  labels not found followed by \<^verbatim>\<open>not in index\<close>, or, when none of the labels is a
  column, a sentence naming the whole index (which pandas breaks over several lines when
  it is long; the model keeps it on one). Labels are rendered as Python renders a string
  without quotes or escapes in it, which is what the schema's names are.
\<close>

type_synonym dataframe = "(string \<times> int) list"

definition DataFrame_row :: "(string \<times> int) list \<Rightarrow> dataframe" where
  "DataFrame_row row = row"

definition columns :: "dataframe \<Rightarrow> string list" where
  "columns df = map fst df"

definition repr_str :: "string \<Rightarrow> string" where
  "repr_str s = [CHR 0x27] @ s @ [CHR 0x27]"

fun join_comma :: "string list \<Rightarrow> string" where
  "join_comma [] = ''''"
| "join_comma [s] = s"
| "join_comma (s # t # rest) = s @ '', '' @ join_comma (t # rest)"

definition repr_list :: "string list \<Rightarrow> string" where
  "repr_list xs = ''['' @ join_comma (map repr_str xs) @ '']''"

definition key_error_text :: "string list \<Rightarrow> string list \<Rightarrow> string" where
  "key_error_text cols missing =
     [CHR 0x22] @
     (if length missing = length cols
      then ''None of [Index('' @ repr_list cols @ '', dtype='object')] are in the [columns]''
      else repr_list (remdups missing) @ '' not in index'') @
     [CHR 0x22]"

definition select_columns :: "dataframe \<Rightarrow> string list \<Rightarrow> exc + dataframe" where
  "select_columns df cols =
     (let missing = filter (\<lambda>c. map_of df c = None) cols in
      if missing = [] then Inr (map (\<lambda>c. (c, the (map_of df c))) cols)
      else Inl (Exc KeyError (key_error_text cols missing)))"

section \<open>The classifier\<close>

text \<open>
  The loaded artifact is opaque. A method or attribute may be absent (\<open>None\<close>: looking
  it up raises AttributeError), and a method that is present may itself raise.
  \<^verbatim>\<open>feature_importances_\<close> and \<^verbatim>\<open>coef_\<close> are attributes, possibly properties that
  raise when read. \<^verbatim>\<open>feature_importances_\<close> is a vector; \<^verbatim>\<open>coef_\<close> is an array of
  one dimension (one weight per feature) or of two (one row of weights per class), so
  that indexing it gives a number or a row.
\<close>

datatype ndarray = Array1 "real list" | Array2 "real list list"

datatype importance_value = Scalar real | Vector "real list"

record model =
  class_name :: string
  predict_proba :: "(dataframe \<Rightarrow> exc + real list list) option"
  predict :: "(dataframe \<Rightarrow> exc + real list) option"
  feature_importances_attr :: "(exc + real list) option"
  coef_attr :: "(exc + ndarray) option"

definition no_attribute :: "model \<Rightarrow> string \<Rightarrow> exc" where
  "no_attribute m name =
     Exc AttributeError
       ([CHR 0x27] @ class_name m @ [CHR 0x27] @ '' object has no attribute ''
        @ [CHR 0x27] @ name @ [CHR 0x27])"

definition call_predict_proba :: "model \<Rightarrow> dataframe \<Rightarrow> exc + real list list" where
  "call_predict_proba m df =
     (case predict_proba m of None \<Rightarrow> Inl (no_attribute m ''predict_proba'') | Some f \<Rightarrow> f df)"

definition call_predict :: "model \<Rightarrow> dataframe \<Rightarrow> exc + real list" where
  "call_predict m df =
     (case predict m of None \<Rightarrow> Inl (no_attribute m ''predict'') | Some f \<Rightarrow> f df)"

text \<open>
  \<^verbatim>\<open>hasattr(obj, name)\<close> is False when reading the attribute raises AttributeError,
  True when it yields a value, and lets any other exception through.
\<close>

definition hasattr :: "(exc + 'a) option \<Rightarrow> exc + bool" where
  "hasattr a =
     (case a of
        None \<Rightarrow> Inr False
      | Some (Inr v) \<Rightarrow> Inr True
      | Some (Inl e) \<Rightarrow> if is_AttributeError e then Inr False else Inl e)"

definition getattr :: "model \<Rightarrow> string \<Rightarrow> (exc + 'a) option \<Rightarrow> exc + 'a" where
  "getattr m name a = (case a of None \<Rightarrow> Inl (no_attribute m name) | Some r \<Rightarrow> r)"

section \<open>The parameter schema\<close>

record var_config =
  min_cfg :: int
  max_cfg :: int
  description :: string
  value_cfg :: int

definition VARIABLE_CONFIG :: "(string \<times> var_config) list" where
  "VARIABLE_CONFIG =
    [(''Sex'',
        \<lparr>min_cfg = 0, max_cfg = 1, description = ''Patient gender (0=Female, 1=Male)'',
         value_cfg = 0\<rparr>),
     (''ASA scores'',
        \<lparr>min_cfg = 0, max_cfg = 5, description = ''ASA physical status classification'',
         value_cfg = 2\<rparr>),
     (''tumor location'',
        \<lparr>min_cfg = 1, max_cfg = 4, description = ''Tumor location code (1-4)'',
         value_cfg = 2\<rparr>),
     (''Benign or malignant'',
        \<lparr>min_cfg = 0, max_cfg = 1, description = ''Tumor nature (0=Benign, 1=Malignant)'',
         value_cfg = 0\<rparr>),
     (''Admitted to NICU'',
        \<lparr>min_cfg = 0, max_cfg = 1, description = ''NICU admission status'',
         value_cfg = 0\<rparr>),
     (''Duration of surgery'',
        \<lparr>min_cfg = 0, max_cfg = 1, description = ''Surgery duration category'',
         value_cfg = 0\<rparr>),
     (''diabetes'',
        \<lparr>min_cfg = 0, max_cfg = 1, description = ''Diabetes mellitus status'',
         value_cfg = 0\<rparr>),
     (''CHF'',
        \<lparr>min_cfg = 0, max_cfg = 1, description = ''Congestive heart failure'',
         value_cfg = 0\<rparr>),
     (''Functional dependencies'',
        \<lparr>min_cfg = 0, max_cfg = 1, description = ''Functional dependencies'',
         value_cfg = 0\<rparr>),
     (''mFI-5'',
        \<lparr>min_cfg = 0, max_cfg = 5, description = ''Modified Frailty Index'',
         value_cfg = 1\<rparr>),
     (''Type of tumor'',
        \<lparr>min_cfg = 1, max_cfg = 5, description = ''Tumor type code (1-5)'',
         value_cfg = 2\<rparr>)]"

definition expected_columns :: "string list" where
  "expected_columns = map fst VARIABLE_CONFIG"

text \<open>
  An input record is schema-valid when it has exactly the schema's parameters, each
  with a value inside the bounds of its entry.
\<close>

definition schema_valid :: "(string \<times> int) list \<Rightarrow> bool" where
  "schema_valid inputs =
     (distinct (map fst inputs) \<and>
      list_all (\<lambda>(k, v). k \<in> set expected_columns) inputs \<and>
      list_all (\<lambda>(feature, config).
                  case map_of inputs feature of
                    None \<Rightarrow> False
                  | Some v \<Rightarrow> min_cfg config \<le> v \<and> v \<le> max_cfg config) VARIABLE_CONFIG)"

section \<open>The page: events and environment\<close>

datatype ui_event =
    SetPageConfig string string string
  | Success string
  | Error string
  | Warning string
  | Info string
  | Stop
  | Title string
  | Markdown string
  | MarkdownHtml string
  | Subheader string
  | Write string
  | Columns nat
  | NumberInput nat string string int int int int
  | Button string
  | Spinner string
  | BarChart "(string \<times> real) list"
  | DataFrameView "(nat \<times> string \<times> real) list"
  | SidebarMarkdown string

datatype status = Completed | Stopped | Uncaught exc

record env =
  joblib_import :: "exc option"
  joblib_load :: "exc + model"
  widget_state :: "string \<Rightarrow> int option"
  button_pressed :: bool

definition check_mark :: string where
  "check_mark = [CHR 0xE2, CHR 0x9C, CHR 0x85]"

definition cross_mark :: string where
  "cross_mark = [CHR 0xE2, CHR 0x9D, CHR 0x8C]"

definition warning_sign :: string where
  "warning_sign = [CHR 0xE2, CHR 0x9A, CHR 0xA0, CHR 0xEF, CHR 0xB8, CHR 0x8F]"

definition hospital_icon :: string where
  "hospital_icon = [CHR 0xF0, CHR 0x9F, CHR 0x8F, CHR 0xA5]"

section \<open>The form (lines 107 to 119)\<close>

text \<open>
  \<^verbatim>\<open>st.number_input\<close> returns the widget's current value: the user's entry, or the
  \<^verbatim>\<open>value\<close> argument when the user has not touched the widget.
\<close>

definition number_input :: "(string \<Rightarrow> int option) \<Rightarrow> string \<Rightarrow> var_config \<Rightarrow> int" where
  "number_input w label config = (case w label of None \<Rightarrow> value_cfg config | Some v \<Rightarrow> v)"

fun form_loop ::
  "(string \<Rightarrow> int option) \<Rightarrow> nat \<Rightarrow> (string \<times> var_config) list \<Rightarrow> (string \<times> int) list
     \<Rightarrow> (string \<times> int) list \<times> ui_event list" where
  "form_loop w i [] inputs = (inputs, [])"
| "form_loop w i ((feature, config) # rest) inputs =
     (let r = form_loop w (Suc i) rest (dict_set inputs feature (number_input w feature config))
      in (fst r,
          NumberInput (i mod 2) feature (description config) (min_cfg config) (max_cfg config)
            (value_cfg config) 1 # snd r))"

section \<open>The prediction handler (lines 122 to 181)\<close>

definition get_proba :: "model \<Rightarrow> dataframe \<Rightarrow> exc + real" where
  "get_proba m input_df =
     (case (case call_predict_proba m input_df of
              Inl e \<Rightarrow> Inl e
            | Inr rows \<Rightarrow> (case getitem rows 0 of Inl e \<Rightarrow> Inl e | Inr row \<Rightarrow> getitem row 1)) of
        Inr proba \<Rightarrow> Inr proba
      | Inl e \<Rightarrow>
          if is_AttributeError e
          then (case call_predict m input_df of
                  Inl e' \<Rightarrow> Inl e'
                | Inr prediction \<Rightarrow> getitem prediction 0)
          else Inl e)"

definition risk_level :: "real \<Rightarrow> string" where
  "risk_level proba = (if proba > 0.5 then ''High Risk'' else ''Low Risk'')"

definition color :: "real \<Rightarrow> string" where
  "color proba = (if proba > 0.5 then ''#FF4B4B'' else ''#00CC96'')"

text \<open>
  The format spec \<^verbatim>\<open>.1%\<close> (line 148). Python multiplies the value by 100 in double
  precision, which rounds the product to the nearest double (ties to the even mantissa),
  then writes that double in fixed notation with one digit after the point, rounding its
  exact value half to even, and appends a percent sign. A product beyond the range of
  doubles is infinite and is written \<^verbatim>\<open>inf\<close>.

  \<open>ulp a\<close> is the spacing of the doubles around \<open>a > 0\<close>: \<open>2 ^ (e - 52)\<close> when
  \<open>2 ^ e \<le> a < 2 ^ (e + 1)\<close>, never below \<open>2 ^ - 1074\<close> (the subnormal range) nor above
  \<open>2 ^ 971\<close> (the last binade). It is found from \<open>2 ^ - 52\<close>, the spacing in \<open>[1, 2)\<close>,
  by doubling or halving. \<open>py_float x\<close> is the double a decimal literal denotes.
\<close>

definition round_half_even :: "real \<Rightarrow> int" where
  "round_half_even x =
     (let f = \<lfloor>x\<rfloor>; r = x - of_int f in
      if r < 1/2 then f else if r > 1/2 then f + 1 else if even f then f else f + 1)"

fun ulp_up :: "nat \<Rightarrow> real \<Rightarrow> real \<Rightarrow> real" where
  "ulp_up n a q =
     (if n = 0 then q else if 2 ^ 53 * q \<le> a then ulp_up (n - 1) a (2 * q) else q)"

fun ulp_down :: "nat \<Rightarrow> real \<Rightarrow> real \<Rightarrow> real" where
  "ulp_down n a q =
     (if n = 0 then q else if a < 2 ^ 52 * q then ulp_down (n - 1) a (q / 2) else q)"

declare ulp_up.simps [simp del]

declare ulp_down.simps [simp del]

definition ulp :: "real \<Rightarrow> real" where
  "ulp a = (if 2 \<le> a then ulp_up 1023 a (1 / 2 ^ 52) else ulp_down 1022 a (1 / 2 ^ 52))"

definition scale_round :: "real \<Rightarrow> real \<Rightarrow> real" where
  "scale_round a q = of_int (round_half_even (a / q)) * q"

definition round_double :: "real \<Rightarrow> real" where
  "round_double x =
     (if x = 0 then 0
      else if x < 0 then - scale_round (- x) (ulp (- x))
      else scale_round x (ulp x))"

definition py_float :: "real \<Rightarrow> real" where
  "py_float x = round_double x"

definition one_decimal :: "nat \<Rightarrow> string" where
  "one_decimal n = digits (n div 10) @ ''.'' @ [digit_char (n mod 10)]"

definition format_fixed1 :: "bool \<Rightarrow> real \<Rightarrow> string" where
  "format_fixed1 neg y =
     (if 2 ^ 1024 \<le> \<bar>y\<bar> then (if neg then ''-inf'' else ''inf'')
      else (if neg then ''-'' else '''') @ one_decimal (nat (round_half_even (\<bar>y\<bar> * 10))))"

definition format_percent :: "real \<Rightarrow> string" where
  "format_percent p = format_fixed1 (p < 0) (round_double (p * 100)) @ ''%''"

definition result_events :: "real \<Rightarrow> ui_event list" where
  "result_events proba =
     [Markdown ''---'',
      Subheader ''Prediction Results'',
      MarkdownHtml (''<h2 style='text-align: center; color: '' @ color proba @ '';'>''
                    @ risk_level proba @ ''</h2>''),
      Write (''### Reoperation Probability: '' @ format_percent proba)]"

text \<open>
  Lines 156 to 161. \<^verbatim>\<open>model.coef_[0]\<close> is the first row of a two-dimensional
  \<^verbatim>\<open>coef_\<close> and the first number of a one-dimensional one.
\<close>

definition first_item :: "ndarray \<Rightarrow> exc + importance_value" where
  "first_item c =
     (case c of
        Array1 xs \<Rightarrow> (case getitem xs 0 of Inl e \<Rightarrow> Inl e | Inr x \<Rightarrow> Inr (Scalar x))
      | Array2 rows \<Rightarrow> (case getitem rows 0 of Inl e \<Rightarrow> Inl e | Inr row \<Rightarrow> Inr (Vector row)))"

definition get_importance :: "model \<Rightarrow> exc + importance_value" where
  "get_importance m =
     (case hasattr (feature_importances_attr m) of
        Inl e \<Rightarrow> Inl e
      | Inr b \<Rightarrow>
          if b then (case getattr m ''feature_importances_'' (feature_importances_attr m) of
                       Inl e \<Rightarrow> Inl e
                     | Inr v \<Rightarrow> Inr (Vector v))
          else (case hasattr (coef_attr m) of
                  Inl e \<Rightarrow> Inl e
                | Inr b' \<Rightarrow>
                    if b' then (case getattr m ''coef_'' (coef_attr m) of
                                  Inl e \<Rightarrow> Inl e
                                | Inr c \<Rightarrow> first_item c)
                    else Inl (Exc AttributeError ''Feature importance not available'')))"

text \<open>
  \<^verbatim>\<open>pd.DataFrame({"Feature": ..., "Importance": ...})\<close> numbers its rows from 0. A
  vector of importances must be as long as the list of features, or pandas raises
  ValueError; a single number is repeated on every row.
  \<^verbatim>\<open>sort_values("Importance", ascending=False)\<close> orders the rows by falling weight;
  pandas sorts the reversed rows upwards and reverses the outcome. Its default sorting
  routine is not stable, so pandas does not fix which of two rows of equal weight comes
  first. The definition keeps the earlier row first; this choice is the model's, and no
  statement below says anything about the order of rows of equal weight. When the
  weights are pairwise different the choice does not arise: every list of the same rows
  in falling order of weight is the one the definition gives
  (\<open>sort_values_desc_unique\<close>).
\<close>

type_synonym importance_frame = "(nat \<times> string \<times> real) list"

definition DataFrame_importance :: "string list \<Rightarrow> importance_value \<Rightarrow> exc + importance_frame" where
  "DataFrame_importance features importance =
     (case importance of
        Scalar x \<Rightarrow>
          Inr (zip [0..<length features] (zip features (replicate (length features) x)))
      | Vector v \<Rightarrow>
          if length v = length features
          then Inr (zip [0..<length features] (zip features v))
          else Inl (Exc ValueError ''All arrays must be of the same length''))"

definition weight :: "nat \<times> string \<times> real \<Rightarrow> real" where
  "weight row = snd (snd row)"

definition sort_values_desc :: "importance_frame \<Rightarrow> importance_frame" where
  "sort_values_desc rows = rev (sort_key weight (rev rows))"

definition set_index_Feature :: "importance_frame \<Rightarrow> (string \<times> real) list" where
  "set_index_Feature rows = map snd rows"

definition importance_df :: "model \<Rightarrow> exc + importance_frame" where
  "importance_df m =
     (case get_importance m of
        Inl e \<Rightarrow> Inl e
      | Inr importance \<Rightarrow>
          (case DataFrame_importance expected_columns importance of
             Inl e \<Rightarrow> Inl e
           | Inr rows \<Rightarrow> Inr (sort_values_desc rows)))"

definition importance_events :: "model \<Rightarrow> ui_event list" where
  "importance_events m =
     [Markdown ''---'', Subheader ''Key Risk Factors''] @
     (case importance_df m of
        Inr rows \<Rightarrow> [BarChart (set_index_Feature rows), DataFrameView rows]
      | Inl e \<Rightarrow>
          [Warning (warning_sign @ '' Feature importance not available: '' @ str_exc e),
           Info ''The model does not provide feature importance data''])"

definition prediction_failed :: "exc \<Rightarrow> ui_event list" where
  "prediction_failed e =
     [Error (cross_mark @ '' Prediction failed: '' @ str_exc e),
      Error ''Please check your input values and try again'']"

definition predict_handler :: "model \<Rightarrow> (string \<times> int) list \<Rightarrow> ui_event list" where
  "predict_handler m inputs =
     (case select_columns (DataFrame_row inputs) expected_columns of
        Inl e \<Rightarrow> prediction_failed e
      | Inr input_df \<Rightarrow>
          Spinner ''Calculating risk...'' #
          (case get_proba m input_df of
             Inl e \<Rightarrow> prediction_failed e
           | Inr proba \<Rightarrow> result_events proba @ importance_events m))"

section \<open>The whole script\<close>

definition nl :: string where
  "nl = [CHR 0x0A]"

definition sidebar_text :: string where
  "sidebar_text =
     nl @ ''    ## System Documentation'' @ nl @
     ''    '' @ nl @
     ''    ### Model Information'' @ nl @
     ''    - Algorithm: XGBoost Classifier'' @ nl @
     ''    - Training Date: 2023-10-15'' @ nl @
     ''    '' @ nl @
     ''    ### Variable Codes'' @ nl @
     ''    - **ASA scores**: '' @ nl @
     ''      0 = Healthy, 5 = Morbund'' @ nl @
     ''    - **Tumor location**:'' @ nl @
     ''      1 = Supratentorial extramedullary,  '' @ nl @
     ''      2 = Supratentorial intramedullary,  '' @ nl @
     ''      3 = Infratentorial extramedullary,  '' @ nl @
     ''      4 = Infratentorial intramedullary'' @ nl @
     ''    - **Tumor type**:'' @ nl @
     ''      1 = Meningioma,  '' @ nl @
     ''      2 = Glioma,  '' @ nl @
     ''      3 = Metastasis,  '' @ nl @
     ''      4 = Acoustic neuroma,  '' @ nl @
     ''      5 = Other'' @ nl @
     ''    ''"

definition sidebar :: "ui_event list" where
  "sidebar =
     [SidebarMarkdown sidebar_text,
      SidebarMarkdown ''---'',
      SidebarMarkdown ''**Technical Support**: contact@medai.org'',
      SidebarMarkdown ''**Version**: 1.4.0'']"

definition page_config :: "ui_event list" where
  "page_config = [SetPageConfig ''Surgical Risk Prediction'' hospital_icon ''wide'']"

definition page_head :: "ui_event list" where
  "page_head =
     [Title ''Unplanned Reoperation Risk Prediction System'',
      Markdown ''---'',
      Subheader ''Patient Parameters'',
      Columns 2]"

definition app :: "env \<Rightarrow> ui_event list \<times> status" where
  "app env =
     (case joblib_import env of
        Some e \<Rightarrow>
          if is_ImportError e
          then (page_config @
                [Error (cross_mark @ '' joblib not found. This application cannot run without joblib.''),
                 Error ''Please ensure joblib is included in your requirements.txt file'',
                 Stop], Stopped)
          else (page_config, Uncaught e)
      | None \<Rightarrow>
          (case joblib_load env of
             Inl e \<Rightarrow>
               (page_config @
                [Success (check_mark @ '' joblib successfully imported''),
                 Error (cross_mark @ '' Failed to load model: '' @ str_exc e),
                 Error (''Please ensure 'model.joblib' exists and is a valid joblib file''),
                 Stop], Stopped)
           | Inr m \<Rightarrow>
               (let form = form_loop (widget_state env) 0 VARIABLE_CONFIG [] in
                (page_config @
                 [Success (check_mark @ '' joblib successfully imported''),
                  Success (check_mark @ '' Model loaded successfully'')] @
                 page_head @ snd form @ [Button ''Predict Risk''] @
                 (if button_pressed env then predict_handler m (fst form) else []) @
                 sidebar, Completed))))"

section \<open>Auxiliary notions for the statements\<close>

text \<open>The input record the form loop leaves in \<^verbatim>\<open>inputs\<close>.\<close>

definition form_inputs :: "(string \<Rightarrow> int option) \<Rightarrow> (string \<times> int) list" where
  "form_inputs w = fst (form_loop w 0 VARIABLE_CONFIG [])"

text \<open>The record of a form nobody has touched: every widget holds its default.\<close>

definition default_inputs :: "(string \<times> int) list" where
  "default_inputs = form_inputs (\<lambda>label. None)"

text \<open>
  A test double for the classifier: \<^verbatim>\<open>predict_proba\<close> answers every frame with the
  row \<open>[1 - p, p]\<close>, and the model has no importance attributes.
\<close>

definition stub_model :: "real \<Rightarrow> model" where
  "stub_model p =
     \<lparr>class_name = ''Stub'',
      predict_proba = Some (\<lambda>df. Inr [[1 - p, p]]),
      predict = Some (\<lambda>df. Inr [if p > 0.5 then 1 else 0]),
      feature_importances_attr = None,
      coef_attr = None\<rparr>"

text \<open>
  The characters the decimal rendering of a number is made of, and the number a run of
  digits denotes.
\<close>

definition is_digit :: "char \<Rightarrow> bool" where
  "is_digit c = (c \<in> set ''0123456789'')"

definition digit_value :: "char \<Rightarrow> nat" where
  "digit_value c = of_char c - 48"

definition decimal_value :: "string \<Rightarrow> nat" where
  "decimal_value s = foldl (\<lambda>acc c. 10 * acc + digit_value c) 0 s"

text \<open>
  What a classifier's \<^verbatim>\<open>predict_proba\<close> returns for a frame of one row: one row of at
  least two class probabilities, each between 0 and 1.
\<close>

definition well_formed_proba :: "real list list \<Rightarrow> bool" where
  "well_formed_proba rows =
     (length rows = 1 \<and>
      list_all (\<lambda>row. 2 \<le> length row \<and> list_all (\<lambda>x. 0 \<le> x \<and> x \<le> 1) row) rows)"

text \<open>
  Recognisers for the events of the form and for warnings.
\<close>

fun is_NumberInput :: "ui_event \<Rightarrow> bool" where
  "is_NumberInput (NumberInput c label help lo hi v step) = True"
| "is_NumberInput ev = False"

fun is_Warning :: "ui_event \<Rightarrow> bool" where
  "is_Warning (Warning msg) = True"
| "is_Warning ev = False"

text \<open>
  Everything a run shows up to and including the button once the model is loaded
  (lines 8 to 122).
\<close>

definition page_with_form :: "(string \<Rightarrow> int option) \<Rightarrow> ui_event list" where
  "page_with_form w =
     page_config @
     [Success (check_mark @ '' joblib successfully imported''),
      Success (check_mark @ '' Model loaded successfully'')] @
     page_head @ snd (form_loop w 0 VARIABLE_CONFIG []) @ [Button ''Predict Risk'']"

text \<open>
  Further test doubles. The first has no \<^verbatim>\<open>predict_proba\<close>, predicts class 1 and
  exposes \<^verbatim>\<open>feature_importances_\<close>; the second has a \<^verbatim>\<open>predict_proba\<close> that raises
  the given exception from inside the call; the third is a linear classifier with a
  two-dimensional \<^verbatim>\<open>coef_\<close> and no \<^verbatim>\<open>feature_importances_\<close>; the fourth answers
  with probability 1 exactly when it is handed the given frame, and with 0 on any other
  frame. The environment is a run with joblib imported, an untouched form and the button
  pressed.
\<close>

definition fallback_model :: model where
  "fallback_model =
     \<lparr>class_name = ''Plain'',
      predict_proba = None,
      predict = Some (\<lambda>df. Inr [1]),
      feature_importances_attr =
        Some (Inr [0.02, 0.2, 0.1, 0.04, 0.12, 0.06, 0.08, 0.03, 0.14, 0.16, 0.05]),
      coef_attr = None\<rparr>"

definition raising_model :: "exc \<Rightarrow> model" where
  "raising_model e =
     \<lparr>class_name = ''Broken'',
      predict_proba = Some (\<lambda>df. Inl e),
      predict = Some (\<lambda>df. Inr [0]),
      feature_importances_attr = None,
      coef_attr = None\<rparr>"

definition linear_model :: model where
  "linear_model =
     \<lparr>class_name = ''Linear'',
      predict_proba = Some (\<lambda>df. Inr [[0.4, 0.6]]),
      predict = Some (\<lambda>df. Inr [1]),
      feature_importances_attr = None,
      coef_attr =
        Some (Inr (Array2 [[0.3, - 0.2, 0.5, 0.1, - 0.4, 0.05, 0.25, - 0.1, 0.6, 0.45, - 0.3]]))\<rparr>"

definition probe_model :: "dataframe \<Rightarrow> model" where
  "probe_model expected =
     \<lparr>class_name = ''Probe'',
      predict_proba = Some (\<lambda>df. Inr (if df = expected then [[0, 1]] else [[1, 0]])),
      predict = Some (\<lambda>df. Inr [0]),
      feature_importances_attr = None,
      coef_attr = None\<rparr>"

definition pressed_env :: "exc + model \<Rightarrow> env" where
  "pressed_env loaded =
     \<lparr>joblib_import = None, joblib_load = loaded, widget_state = (\<lambda>label. None),
      button_pressed = True\<rparr>"

text \<open>
  The importance section as shown when no importance table could be built
  (lines 151, 152, 176 and 177).
\<close>

definition unavailable_events :: "exc \<Rightarrow> ui_event list" where
  "unavailable_events e =
     [Markdown ''---'', Subheader ''Key Risk Factors'',
      Warning (warning_sign @ '' Feature importance not available: '' @ str_exc e),
      Info ''The model does not provide feature importance data'']"

section \<open>Basic facts\<close>

lemma dict_set_fresh: "k \<notin> set (map fst d) \<Longrightarrow> dict_set d k v = d @ [(k, v)]"
  by (induction d) auto

lemma form_loop_inputs:
  "distinct (map fst cfg) \<Longrightarrow> set (map fst cfg) \<inter> set (map fst acc) = {} \<Longrightarrow>
   fst (form_loop w i cfg acc) =
     acc @ map (\<lambda>(feature, config). (feature, number_input w feature config)) cfg"
proof (induction cfg arbitrary: i acc)
  case Nil
  then show ?case by simp
next
  case (Cons a cfg)
  obtain feature config where a: "a = (feature, config)" by (cases a)
  from Cons.prems a have fresh: "feature \<notin> set (map fst acc)" by auto
  have "fst (form_loop w (Suc i) cfg (acc @ [(feature, number_input w feature config)])) =
        (acc @ [(feature, number_input w feature config)]) @
        map (\<lambda>(feature, config). (feature, number_input w feature config)) cfg"
    using Cons.prems a by (intro Cons.IH) auto
  then show ?case using a fresh by (simp add: dict_set_fresh Let_def)
qed

lemma distinct_expected_columns: "distinct expected_columns"
  by (simp add: expected_columns_def VARIABLE_CONFIG_def)

lemma length_expected_columns: "length expected_columns = 11"
  by (simp add: expected_columns_def VARIABLE_CONFIG_def)

lemma form_inputs_eq:
  "form_inputs w =
     map (\<lambda>(feature, config). (feature, number_input w feature config)) VARIABLE_CONFIG"
  using form_loop_inputs [of VARIABLE_CONFIG "[]" w 0] distinct_expected_columns
  by (simp add: form_inputs_def expected_columns_def)

lemma columns_form_inputs: "map fst (form_inputs w) = expected_columns"
  by (simp add: form_inputs_eq expected_columns_def case_prod_unfold comp_def)

lemma select_columns_present:
  "set cols \<subseteq> set (map fst df) \<Longrightarrow>
   select_columns df cols = Inr (map (\<lambda>c. (c, the (map_of df c))) cols)"
proof -
  assume sub: "set cols \<subseteq> set (map fst df)"
  have "filter (\<lambda>c. map_of df c = None) cols = []"
    using sub by (auto simp: filter_empty_conv map_of_eq_None_iff)
  then show ?thesis by (simp add: select_columns_def)
qed

lemma select_columns_columns:
  "select_columns df cols = Inr df' \<Longrightarrow> columns df' = cols"
  by (auto simp: select_columns_def columns_def Let_def comp_def split: if_splits)

lemma select_columns_values:
  "select_columns df cols = Inr df' \<Longrightarrow> c \<in> set cols \<Longrightarrow> map_of df' c = map_of df c"
proof -
  assume sel: "select_columns df cols = Inr df'" and c: "c \<in> set cols"
  from sel have none: "filter (\<lambda>c. map_of df c = None) cols = []"
    and df': "df' = map (\<lambda>c. (c, the (map_of df c))) cols"
    by (auto simp: select_columns_def Let_def split: if_splits)
  from none c have "map_of df c \<noteq> None" by (auto simp: filter_empty_conv)
  then obtain v where v: "map_of df c = Some v" by auto
  have "map_of df' c = Some (the (map_of df c))"
    unfolding df' using c by (induction cols) auto
  with v show ?thesis by simp
qed

lemma select_columns_same_order:
  "distinct (map fst df) \<Longrightarrow> select_columns df (map fst df) = Inr df"
proof -
  assume d: "distinct (map fst df)"
  have "\<And>x. x \<in> set df \<Longrightarrow> (fst x, the (map_of df (fst x))) = x"
  proof -
    fix x assume "x \<in> set df"
    with d have "map_of df (fst x) = Some (snd x)" by (cases x) simp
    then show "(fst x, the (map_of df (fst x))) = x" by simp
  qed
  then have "map (\<lambda>c. (c, the (map_of df c))) (map fst df) = df"
    by (simp add: map_idI comp_def)
  then show ?thesis using select_columns_present [of "map fst df" df] by simp
qed

lemma select_form_inputs:
  "select_columns (DataFrame_row (form_inputs w)) expected_columns = Inr (form_inputs w)"
  using select_columns_same_order [of "form_inputs w"] distinct_expected_columns
  by (simp add: columns_form_inputs DataFrame_row_def)

lemma default_inputs_eq:
  "default_inputs =
     [(''Sex'', 0), (''ASA scores'', 2), (''tumor location'', 2), (''Benign or malignant'', 0),
      (''Admitted to NICU'', 0), (''Duration of surgery'', 0), (''diabetes'', 0), (''CHF'', 0),
      (''Functional dependencies'', 0), (''mFI-5'', 1), (''Type of tumor'', 2)]"
  by (simp add: default_inputs_def form_inputs_eq VARIABLE_CONFIG_def number_input_def)

lemma handler_stub:
  "predict_handler (stub_model p) default_inputs =
     Spinner ''Calculating risk...'' # result_events p @ importance_events (stub_model p)"
  by (simp add: predict_handler_def default_inputs_def select_form_inputs get_proba_def
      call_predict_proba_def stub_model_def getitem_def)

lemma round_half_even_error: "\<bar>of_int (round_half_even x) - x\<bar> \<le> 1 / 2"
proof -
  have "of_int \<lfloor>x\<rfloor> \<le> x" and "x < of_int \<lfloor>x\<rfloor> + 1" by linarith+
  then show ?thesis
    by (auto simp: round_half_even_def Let_def abs_le_iff)
qed

lemma round_half_even_nonneg: "0 \<le> x \<Longrightarrow> 0 \<le> round_half_even x"
proof -
  assume "0 \<le> x"
  then have "0 \<le> \<lfloor>x\<rfloor>" by simp
  then show ?thesis by (auto simp: round_half_even_def Let_def)
qed

lemma ulp_up_bound: "0 < q \<Longrightarrow> 0 < ulp_up n a q \<and> ulp_up n a q \<le> max q (a / 2 ^ 52)"
proof (induction n a q rule: ulp_up.induct)
  case (1 n a q)
  show ?case
  proof (cases "n \<noteq> 0 \<and> 2 ^ 53 * q \<le> a")
    case True
    with 1 have ih: "0 < ulp_up (n - 1) a (2 * q) \<and>
                     ulp_up (n - 1) a (2 * q) \<le> max (2 * q) (a / 2 ^ 52)"
      by simp
    from True have "2 * q \<le> a / 2 ^ 52" by (simp add: field_simps)
    with ih True show ?thesis by (simp add: ulp_up.simps [of n a q] max_def)
  next
    case False
    with 1 show ?thesis by (auto simp: ulp_up.simps [of n a q])
  qed
qed

lemma ulp_down_bound: "0 < q \<Longrightarrow> 0 < ulp_down n a q \<and> ulp_down n a q \<le> q"
proof (induction n a q rule: ulp_down.induct)
  case (1 n a q)
  show ?case
  proof (cases "n \<noteq> 0 \<and> a < 2 ^ 52 * q")
    case True
    with 1 have "0 < ulp_down (n - 1) a (q / 2) \<and> ulp_down (n - 1) a (q / 2) \<le> q / 2"
      by simp
    with True 1 show ?thesis by (simp add: ulp_down.simps [of n a q])
  next
    case False
    with 1 show ?thesis by (auto simp: ulp_down.simps [of n a q])
  qed
qed

lemma ulp_bound: "0 < ulp a \<and> ulp a \<le> max (1 / 2 ^ 52) (a / 2 ^ 52)"
proof (cases "2 \<le> a")
  case True
  then show ?thesis using ulp_up_bound [of "1 / 2 ^ 52" 1023 a] by (simp add: ulp_def)
next
  case False
  have "0 < ulp_down 1022 a (1 / 2 ^ 52) \<and> ulp_down 1022 a (1 / 2 ^ 52) \<le> 1 / 2 ^ 52"
    by (rule ulp_down_bound) simp
  with False show ?thesis by (simp add: ulp_def max_def)
qed

lemma scale_round_error: "0 < q \<Longrightarrow> \<bar>scale_round a q - a\<bar> \<le> q / 2"
proof -
  assume q: "0 < q"
  have "scale_round a q - a = (of_int (round_half_even (a / q)) - a / q) * q"
    using q by (simp add: scale_round_def field_simps)
  then have "\<bar>scale_round a q - a\<bar> = \<bar>of_int (round_half_even (a / q)) - a / q\<bar> * q"
    using q by (simp add: abs_mult)
  also have "\<dots> \<le> 1 / 2 * q"
    using q round_half_even_error [of "a / q"] by (intro mult_right_mono) simp_all
  finally show ?thesis by simp
qed

lemma scale_round_nonneg: "0 \<le> a \<Longrightarrow> 0 < q \<Longrightarrow> 0 \<le> scale_round a q"
  by (simp add: scale_round_def round_half_even_nonneg)

lemma abs_round_double:
  "\<bar>round_double x\<bar> = (if x = 0 then 0 else scale_round \<bar>x\<bar> (ulp \<bar>x\<bar>))"
proof -
  have "0 \<le> scale_round \<bar>x\<bar> (ulp \<bar>x\<bar>)"
    using ulp_bound [of "\<bar>x\<bar>"] by (intro scale_round_nonneg) simp_all
  then show ?thesis by (auto simp: round_double_def)
qed

lemma round_double_error: "\<bar>\<bar>round_double x\<bar> - \<bar>x\<bar>\<bar> \<le> (\<bar>x\<bar> + 1) / 2 ^ 53"
proof (cases "x = 0")
  case True
  then show ?thesis by (simp add: round_double_def)
next
  case False
  let ?a = "\<bar>x\<bar>"
  have u: "0 < ulp ?a" "ulp ?a \<le> max (1 / 2 ^ 52) (?a / 2 ^ 52)"
    using ulp_bound [of ?a] by simp_all
  have "max (1 / 2 ^ 52) (?a / 2 ^ 52) \<le> (?a + 1) / 2 ^ 52"
    by (simp add: max_def field_simps)
  with u(2) have "ulp ?a / 2 \<le> (?a + 1) / 2 ^ 53" by simp
  moreover have "\<bar>scale_round ?a (ulp ?a) - ?a\<bar> \<le> ulp ?a / 2"
    using u(1) by (rule scale_round_error)
  ultimately show ?thesis using False by (simp add: abs_round_double)
qed

lemma digit_char_is_digit: "d < 10 \<Longrightarrow> is_digit (digit_char d)"
proof -
  assume "d < 10"
  then have "d \<in> {0, 1, 2, 3, 4, 5, 6, 7, 8, 9}" by auto
  then show ?thesis by (auto simp: is_digit_def digit_char_def)
qed

lemma digit_value_digit_char: "d < 10 \<Longrightarrow> digit_value (digit_char d) = d"
proof -
  assume "d < 10"
  then have "d \<in> {0, 1, 2, 3, 4, 5, 6, 7, 8, 9}" by auto
  then show ?thesis by (auto simp: digit_value_def digit_char_def)
qed

lemma decimal_value_snoc:
  "decimal_value (s @ [c]) = 10 * decimal_value s + digit_value c"
  by (simp add: decimal_value_def)

lemma digits_all_digit: "digits n \<noteq> [] \<and> list_all is_digit (digits n)"
proof (induction n rule: digits.induct)
  case (1 n)
  show ?case
  proof (cases "n < 10")
    case True
    then show ?thesis by (simp add: digits.simps [of n] digit_char_is_digit)
  next
    case False
    with 1 show ?thesis by (simp add: digits.simps [of n] digit_char_is_digit)
  qed
qed

lemma decimal_value_digits: "decimal_value (digits n) = n"
proof (induction n rule: digits.induct)
  case (1 n)
  show ?case
  proof (cases "n < 10")
    case True
    then show ?thesis
      by (simp add: digits.simps [of n] decimal_value_def digit_value_digit_char)
  next
    case False
    with 1 have "decimal_value (digits (n div 10)) = n div 10" by simp
    with False show ?thesis
      by (simp add: digits.simps [of n] decimal_value_snoc digit_value_digit_char)
  qed
qed

lemma one_decimal_value:
  "real (decimal_value (digits (n div 10))) + real (digit_value (digit_char (n mod 10))) / 10
     = real n / 10"
proof -
  have "real n = real (10 * (n div 10) + n mod 10)" by simp
  also have "\<dots> = 10 * real (n div 10) + real (n mod 10)"
    by (simp only: of_nat_add of_nat_mult of_nat_numeral)
  finally show ?thesis by (simp add: decimal_value_digits digit_value_digit_char)
qed

lemma format_percent_value:
  assumes "\<bar>p\<bar> * 100 < 2 ^ 1023"
  shows "\<exists>ip d.
           format_percent p = (if p < 0 then ''-'' else '''') @ ip @ ''.'' @ [d] @ ''%'' \<and>
           ip \<noteq> [] \<and> list_all is_digit ip \<and> is_digit d \<and>
           \<bar>real (decimal_value ip) + real (digit_value d) / 10 - \<bar>p\<bar> * 100\<bar>
             \<le> 1 / 20 + (\<bar>p\<bar> * 100 + 1) / 2 ^ 53"
proof -
  define y where "y = \<bar>round_double (p * 100)\<bar>"
  define n where "n = nat (round_half_even (y * 10))"
  have a: "\<bar>p * 100\<bar> = \<bar>p\<bar> * 100" by (simp add: abs_mult)
  have err: "\<bar>y - \<bar>p\<bar> * 100\<bar> \<le> (\<bar>p\<bar> * 100 + 1) / 2 ^ 53"
    using round_double_error [of "p * 100"] by (simp add: y_def a)
  have "(\<bar>p\<bar> * 100 + 1) / 2 ^ 53 \<le> (2 ^ 1023 + 1) / 2 ^ 53"
    using assms by (intro divide_right_mono) simp_all
  also have "\<dots> < (2::real) ^ 1023" by simp
  finally have "y < 2 ^ 1023 + 2 ^ 1023" using err assms by linarith
  then have fin: "\<not> 2 ^ 1024 \<le> y" by simp
  have fmt: "format_percent p =
      (if p < 0 then ''-'' else '''') @ digits (n div 10) @ ''.'' @ [digit_char (n mod 10)] @ ''%''"
    using fin by (simp add: format_percent_def format_fixed1_def one_decimal_def y_def n_def)
  have "0 \<le> y" by (simp add: y_def)
  then have "0 \<le> round_half_even (y * 10)" by (intro round_half_even_nonneg) simp
  then have "real n = of_int (round_half_even (y * 10))" by (simp add: n_def)
  with round_half_even_error [of "y * 10"] have "\<bar>real n - y * 10\<bar> \<le> 1 / 2" by simp
  then have dec: "\<bar>real n / 10 - y\<bar> \<le> 1 / 20" by (simp add: abs_le_iff field_simps)
  have val: "real (decimal_value (digits (n div 10))) +
             real (digit_value (digit_char (n mod 10))) / 10 = real n / 10"
    by (rule one_decimal_value)
  have "\<bar>real n / 10 - \<bar>p\<bar> * 100\<bar> \<le> 1 / 20 + (\<bar>p\<bar> * 100 + 1) / 2 ^ 53"
    using dec err by linarith
  then have close: "\<bar>real (decimal_value (digits (n div 10))) +
             real (digit_value (digit_char (n mod 10))) / 10 - \<bar>p\<bar> * 100\<bar>
             \<le> 1 / 20 + (\<bar>p\<bar> * 100 + 1) / 2 ^ 53"
    by (simp only: val)
  have "is_digit (digit_char (n mod 10))" by (simp add: digit_char_is_digit)
  with fmt close digits_all_digit [of "n div 10"] show ?thesis by blast
qed

lemmas format_eval = format_percent_def format_fixed1_def one_decimal_def round_double_def
  scale_round_def ulp_def ulp_up.simps ulp_down.simps round_half_even_def digits.simps
  digit_char_def py_float_def

lemma py_float_073: "py_float 0.73 = 6575255455960924 / 2 ^ 53"
  by (simp add: format_eval)

lemma format_percent_07255: "format_percent (py_float 0.7255) = ''72.5%''"
  by (simp add: format_eval)

lemma result_events_073:
  "result_events (py_float 0.73) =
     [Markdown ''---'', Subheader ''Prediction Results'',
      MarkdownHtml ''<h2 style='text-align: center; color: #FF4B4B;'>High Risk</h2>'',
      Write ''### Reoperation Probability: 73.0%'']"
  by (simp add: result_events_def color_def risk_level_def format_eval)

lemma result_events_05:
  "result_events 0.5 =
     [Markdown ''---'', Subheader ''Prediction Results'',
      MarkdownHtml ''<h2 style='text-align: center; color: #00CC96;'>Low Risk</h2>'',
      Write ''### Reoperation Probability: 50.0%'']"
  by (simp add: result_events_def color_def risk_level_def format_eval)


lemma digits_no_leading_zero: "digits n = ''0'' \<or> hd (digits n) \<noteq> CHR ''0''"
proof (induction n rule: digits.induct)
  case (1 n)
  show ?case
  proof (cases "n < 10")
    case True
    then have "n \<in> {0, 1, 2, 3, 4, 5, 6, 7, 8, 9}" by auto
    then show ?thesis by (auto simp: digits.simps [of n] digit_char_def)
  next
    case False
    then have pos: "n div 10 \<noteq> 0" by simp
    have "digits (n div 10) \<noteq> ''0''"
    proof
      assume "digits (n div 10) = ''0''"
      then have "decimal_value (digits (n div 10)) = decimal_value ''0''" by simp
      moreover have "decimal_value ''0'' = 0"
        by (simp add: decimal_value_def digit_value_def)
      ultimately have "n div 10 = 0"
        by (simp only: decimal_value_digits)
      with pos show False by simp
    qed
    with 1 False have "hd (digits (n div 10)) \<noteq> CHR ''0''" by simp
    moreover have "digits (n div 10) \<noteq> []" using digits_all_digit by simp
    ultimately show ?thesis using False by (simp add: digits.simps [of n])
  qed
qed

lemma result_events_value:
  assumes "\<bar>p\<bar> * 100 < 2 ^ 1023"
  shows "\<exists>ip d.
           result_events p =
             [Markdown ''---'', Subheader ''Prediction Results'',
              MarkdownHtml (''<h2 style='text-align: center; color: '' @ color p @ '';'>''
                            @ risk_level p @ ''</h2>''),
              Write (''### Reoperation Probability: '' @
                     (if p < 0 then ''-'' else '''') @ ip @ ''.'' @ [d] @ ''%'')] \<and>
           ip \<noteq> [] \<and> list_all is_digit ip \<and> (ip = ''0'' \<or> hd ip \<noteq> CHR ''0'') \<and> is_digit d \<and>
           \<bar>real (decimal_value ip) + real (digit_value d) / 10 - \<bar>p\<bar> * 100\<bar>
             \<le> 1 / 20 + (\<bar>p\<bar> * 100 + 1) / 2 ^ 53"
proof -
  define y where "y = \<bar>round_double (p * 100)\<bar>"
  define n where "n = nat (round_half_even (y * 10))"
  have a: "\<bar>p * 100\<bar> = \<bar>p\<bar> * 100" by (simp add: abs_mult)
  have err: "\<bar>y - \<bar>p\<bar> * 100\<bar> \<le> (\<bar>p\<bar> * 100 + 1) / 2 ^ 53"
    using round_double_error [of "p * 100"] by (simp add: y_def a)
  have "(\<bar>p\<bar> * 100 + 1) / 2 ^ 53 \<le> (2 ^ 1023 + 1) / 2 ^ 53"
    using assms by (intro divide_right_mono) simp_all
  also have "\<dots> < (2::real) ^ 1023" by simp
  finally have "y < 2 ^ 1023 + 2 ^ 1023" using err assms by linarith
  then have fin: "\<not> 2 ^ 1024 \<le> y" by simp
  have fmt: "format_percent p =
      (if p < 0 then ''-'' else '''') @ digits (n div 10) @ ''.'' @ [digit_char (n mod 10)] @ ''%''"
    using fin by (simp add: format_percent_def format_fixed1_def one_decimal_def y_def n_def)
  have res: "result_events p =
             [Markdown ''---'', Subheader ''Prediction Results'',
              MarkdownHtml (''<h2 style='text-align: center; color: '' @ color p @ '';'>''
                            @ risk_level p @ ''</h2>''),
              Write (''### Reoperation Probability: '' @
                     (if p < 0 then ''-'' else '''') @ digits (n div 10) @ ''.'' @
                     [digit_char (n mod 10)] @ ''%'')]"
    by (simp only: result_events_def fmt)
  have "0 \<le> y" by (simp add: y_def)
  then have "0 \<le> round_half_even (y * 10)" by (intro round_half_even_nonneg) simp
  then have "real n = of_int (round_half_even (y * 10))" by (simp add: n_def)
  with round_half_even_error [of "y * 10"] have "\<bar>real n - y * 10\<bar> \<le> 1 / 2" by simp
  then have dec: "\<bar>real n / 10 - y\<bar> \<le> 1 / 20" by (simp add: abs_le_iff field_simps)
  have val: "real (decimal_value (digits (n div 10))) +
             real (digit_value (digit_char (n mod 10))) / 10 = real n / 10"
    by (rule one_decimal_value)
  have "\<bar>real n / 10 - \<bar>p\<bar> * 100\<bar> \<le> 1 / 20 + (\<bar>p\<bar> * 100 + 1) / 2 ^ 53"
    using dec err by linarith
  then have close: "\<bar>real (decimal_value (digits (n div 10))) +
             real (digit_value (digit_char (n mod 10))) / 10 - \<bar>p\<bar> * 100\<bar>
             \<le> 1 / 20 + (\<bar>p\<bar> * 100 + 1) / 2 ^ 53"
    by (simp only: val)
  have "is_digit (digit_char (n mod 10))" by (simp add: digit_char_is_digit)
  with res close digits_all_digit [of "n div 10"] digits_no_leading_zero [of "n div 10"]
  show ?thesis by blast
qed

lemma app_loaded:
  "joblib_import env = None \<Longrightarrow> joblib_load env = Inr m \<Longrightarrow>
   app env =
     (page_with_form (widget_state env) @
      (if button_pressed env then predict_handler m (form_inputs (widget_state env)) else []) @
      sidebar, Completed)"
  by (simp add: app_def page_with_form_def form_inputs_def Let_def)

lemma handler_form_inputs:
  "predict_handler m (form_inputs w) =
     Spinner ''Calculating risk...'' #
     (case get_proba m (form_inputs w) of
        Inl e \<Rightarrow> prediction_failed e
      | Inr proba \<Rightarrow> result_events proba @ importance_events m)"
  by (simp add: predict_handler_def select_form_inputs)

lemma number_input_in_form:
  "list_ex is_NumberInput (snd (form_loop w i VARIABLE_CONFIG acc))"
  by (simp add: VARIABLE_CONFIG_def Let_def)

lemma form_shown_iff:
  "list_ex is_NumberInput (fst (app env)) =
     (joblib_import env = None \<and> (\<exists>m. joblib_load env = Inr m))"
proof (cases "joblib_import env")
  case (Some e)
  then show ?thesis by (simp add: app_def page_config_def)
next
  case None
  show ?thesis
  proof (cases "joblib_load env")
    case (Inl e)
    with None show ?thesis by (simp add: app_def page_config_def)
  next
    case (Inr m)
    with None show ?thesis
      by (simp add: app_def Let_def number_input_in_form)
  qed
qed

lemma schema_valid_keys:
  assumes v: "schema_valid inputs"
  shows "set expected_columns \<subseteq> set (map fst inputs)"
proof
  fix c assume c: "c \<in> set expected_columns"
  then obtain config where "(c, config) \<in> set VARIABLE_CONFIG"
    by (auto simp: expected_columns_def)
  with v have "map_of inputs c \<noteq> None"
    by (auto simp: schema_valid_def list_all_iff split: option.splits)
  then show "c \<in> set (map fst inputs)" by (simp add: map_of_eq_None_iff)
qed

lemma importance_df_neither:
  "feature_importances_attr m = None \<Longrightarrow> coef_attr m = None \<Longrightarrow>
   importance_df m = Inl (Exc AttributeError ''Feature importance not available'')"
  by (simp add: importance_df_def get_importance_def hasattr_def)

lemma importance_events_unavailable:
  "importance_df m = Inl e \<Longrightarrow> importance_events m = unavailable_events e"
  by (simp add: importance_events_def unavailable_events_def)

lemma sort_values_desc_mset: "mset (sort_values_desc rows) = mset rows"
  by (simp add: sort_values_desc_def)

lemma sort_values_desc_sorted: "sorted_wrt (\<ge>) (map weight (sort_values_desc rows))"
proof -
  have "sorted (map weight (sort_key weight (rev rows)))" by (rule sorted_sort_key)
  then have "sorted_wrt (\<lambda>x y. y \<le> x) (rev (map weight (sort_key weight (rev rows))))"
    by (simp add: sorted_wrt_rev)
  then show ?thesis by (simp add: sort_values_desc_def rev_map)
qed

lemma sort_values_desc_unique:
  assumes d: "distinct (map weight rows)"
    and m: "mset rows' = mset rows"
    and s: "sorted_wrt (\<ge>) (map weight rows')"
  shows "rows' = sort_values_desc rows"
proof -
  let ?t = "sort_values_desc rows"
  have mt: "mset ?t = mset rows" by (rule sort_values_desc_mset)
  from m have "image_mset weight (mset rows') = image_mset weight (mset rows)" by simp
  then have mw: "mset (map weight rows') = mset (map weight rows)" by simp
  from mt have "image_mset weight (mset ?t) = image_mset weight (mset rows)" by simp
  then have mwt: "mset (map weight ?t) = mset (map weight rows)" by simp
  have d1: "distinct (map weight rows')"
    using mset_eq_imp_distinct_iff [OF mw] d by blast
  have d2: "distinct (map weight ?t)"
    using mset_eq_imp_distinct_iff [OF mwt] d by blast
  have s1: "sorted (rev (map weight rows'))"
    using s by (simp add: sorted_wrt_rev)
  have s2: "sorted (rev (map weight ?t))"
    using sort_values_desc_sorted [of rows] by (simp add: sorted_wrt_rev)
  have "set (map weight rows') = set (map weight rows)"
    using mw by (rule mset_eq_setD)
  moreover have "set (map weight ?t) = set (map weight rows)"
    using mwt by (rule mset_eq_setD)
  ultimately have "set (rev (map weight rows')) = set (rev (map weight ?t))"
    by simp
  then have "rev (map weight rows') = rev (map weight ?t)"
    using s1 s2 d1 d2 by (intro sorted_distinct_set_unique) (simp_all only: distinct_rev)
  then have eq: "map weight rows' = map weight ?t" by simp
  from d have "inj_on weight (set rows)" by (simp add: distinct_map)
  moreover have "set rows' = set rows" using m by (rule mset_eq_setD)
  moreover have "set ?t = set rows" using mt by (rule mset_eq_setD)
  ultimately have "inj_on weight (set rows' \<union> set ?t)" by simp
  with eq show ?thesis by (simp add: inj_on_map_eq_map)
qed

lemma get_importance_feature_importances:
  "feature_importances_attr m = Some (Inr v) \<Longrightarrow> get_importance m = Inr (Vector v)"
  by (simp add: get_importance_def hasattr_def getattr_def)

lemma get_importance_coef:
  "feature_importances_attr m = None \<or>
     (\<exists>msg. feature_importances_attr m = Some (Inl (Exc AttributeError msg))) \<Longrightarrow>
   coef_attr m = Some (Inr (Array2 (row # rest))) \<Longrightarrow>
   get_importance m = Inr (Vector row)"
  by (auto simp: get_importance_def hasattr_def getattr_def first_item_def getitem_def)

lemma get_importance_coef_1d:
  "feature_importances_attr m = None \<Longrightarrow> coef_attr m = Some (Inr (Array1 (x # rest))) \<Longrightarrow>
   get_importance m = Inr (Scalar x)"
  by (simp add: get_importance_def hasattr_def getattr_def first_item_def getitem_def)

lemma importance_events_vector:
  assumes "get_importance m = Inr (Vector importance)"
    and "length importance = length expected_columns"
  shows "\<exists>rows.
           importance_events m =
             [Markdown ''---'', Subheader ''Key Risk Factors'',
              BarChart (map snd rows), DataFrameView rows] \<and>
           mset rows = mset (zip [0..<length expected_columns] (zip expected_columns importance)) \<and>
           mset (map snd rows) = mset (zip expected_columns importance) \<and>
           list_all (\<lambda>(i, name, w). i < length expected_columns \<and>
                       name = expected_columns ! i \<and> w = importance ! i) rows \<and>
           sorted_wrt (\<ge>) (map weight rows)"
proof -
  define frame where
    "frame = zip [0..<length expected_columns] (zip expected_columns importance)"
  define rows where "rows = sort_values_desc frame"
  have df: "importance_df m = Inr rows"
    using assms by (simp add: importance_df_def DataFrame_importance_def rows_def frame_def)
  then have ev: "importance_events m =
      [Markdown ''---'', Subheader ''Key Risk Factors'', BarChart (map snd rows), DataFrameView rows]"
    by (simp add: importance_events_def set_index_Feature_def)
  have ms: "mset rows = mset frame"
    by (simp add: rows_def sort_values_desc_mset)
  then have "image_mset snd (mset rows) = image_mset snd (mset frame)"
    by simp
  then have "mset (map snd rows) = mset (map snd frame)"
    by simp
  moreover have "map snd frame = zip expected_columns importance"
    using assms(2) by (simp add: frame_def)
  ultimately have ms2: "mset (map snd rows) = mset (zip expected_columns importance)"
    by simp
  have "\<forall>r \<in> set frame. case r of (i, name, w) \<Rightarrow>
          i < length expected_columns \<and> name = expected_columns ! i \<and> w = importance ! i"
    using assms(2) by (auto simp: frame_def in_set_zip)
  moreover from ms have "set rows = set frame" by (rule mset_eq_setD)
  ultimately have aligned: "list_all (\<lambda>(i, name, w). i < length expected_columns \<and>
                       name = expected_columns ! i \<and> w = importance ! i) rows"
    by (simp add: list_all_iff)
  have srt: "sorted_wrt (\<ge>) (map weight rows)"
    by (simp add: rows_def sort_values_desc_sorted)
  from ev ms ms2 aligned srt show ?thesis
    unfolding frame_def by blast
qed

lemmas importance_eval = importance_events_def importance_df_def get_importance_def hasattr_def
  getattr_def first_item_def getitem_def DataFrame_importance_def expected_columns_def
  VARIABLE_CONFIG_def sort_values_desc_def weight_def set_index_Feature_def upt_rec

lemma importance_events_fallback_model:
  "importance_events fallback_model =
     [Markdown ''---'', Subheader ''Key Risk Factors'',
      BarChart
        [(''ASA scores'', 0.2), (''mFI-5'', 0.16), (''Functional dependencies'', 0.14),
         (''Admitted to NICU'', 0.12), (''tumor location'', 0.1), (''diabetes'', 0.08),
         (''Duration of surgery'', 0.06), (''Type of tumor'', 0.05),
         (''Benign or malignant'', 0.04), (''CHF'', 0.03), (''Sex'', 0.02)],
      DataFrameView
        [(1, ''ASA scores'', 0.2), (9, ''mFI-5'', 0.16), (8, ''Functional dependencies'', 0.14),
         (4, ''Admitted to NICU'', 0.12), (2, ''tumor location'', 0.1), (6, ''diabetes'', 0.08),
         (5, ''Duration of surgery'', 0.06), (10, ''Type of tumor'', 0.05),
         (3, ''Benign or malignant'', 0.04), (7, ''CHF'', 0.03), (0, ''Sex'', 0.02)]]"
  by (simp add: importance_eval fallback_model_def)

lemma importance_events_linear_model:
  "importance_events linear_model =
     [Markdown ''---'', Subheader ''Key Risk Factors'',
      BarChart
        [(''Functional dependencies'', 0.6), (''tumor location'', 0.5), (''mFI-5'', 0.45),
         (''Sex'', 0.3), (''diabetes'', 0.25), (''Benign or malignant'', 0.1),
         (''Duration of surgery'', 0.05), (''CHF'', - 0.1), (''ASA scores'', - 0.2),
         (''Type of tumor'', - 0.3), (''Admitted to NICU'', - 0.4)],
      DataFrameView
        [(8, ''Functional dependencies'', 0.6), (2, ''tumor location'', 0.5), (9, ''mFI-5'', 0.45),
         (0, ''Sex'', 0.3), (6, ''diabetes'', 0.25), (3, ''Benign or malignant'', 0.1),
         (5, ''Duration of surgery'', 0.05), (7, ''CHF'', - 0.1), (1, ''ASA scores'', - 0.2),
         (10, ''Type of tumor'', - 0.3), (4, ''Admitted to NICU'', - 0.4)]]"
  by (simp add: importance_eval linear_model_def)

lemma no_warning_in_form: "\<not> list_ex is_Warning (page_with_form w)"
  by (simp add: page_with_form_def page_config_def page_head_def VARIABLE_CONFIG_def Let_def)

lemma no_warning_in_result: "\<not> list_ex is_Warning (result_events proba)"
  by (simp add: result_events_def)

lemma no_warning_in_sidebar: "\<not> list_ex is_Warning sidebar"
  by (simp add: sidebar_def)

lemma no_attribute_predict_proba_update:
  "no_attribute (m\<lparr>predict_proba := f\<rparr>) name = no_attribute m name"
  by (simp add: no_attribute_def)

lemma no_attribute_predict_update:
  "no_attribute (m\<lparr>predict := q\<rparr>) name = no_attribute m name"
  by (simp add: no_attribute_def)

lemma getattr_predict_proba_update:
  "getattr (m\<lparr>predict_proba := f\<rparr>) name a = getattr m name a"
  by (simp add: getattr_def no_attribute_predict_proba_update cong: option.case_cong)

lemma get_importance_predict_proba_update:
  "get_importance (m\<lparr>predict_proba := f\<rparr>) = get_importance m"
  by (simp add: get_importance_def getattr_predict_proba_update cong: sum.case_cong if_cong)

lemma importance_events_predict_proba_update:
  "importance_events (m\<lparr>predict_proba := f\<rparr>) = importance_events m"
  by (simp add: importance_events_def importance_df_def get_importance_predict_proba_update)

lemma get_proba_fallback:
  "call_predict_proba m df = Inl e \<Longrightarrow> is_AttributeError e \<Longrightarrow>
   get_proba m df =
     (case call_predict m df of Inl e' \<Rightarrow> Inl e' | Inr prediction \<Rightarrow> getitem prediction 0)"
  by (simp add: get_proba_def)

lemma get_proba_other_error:
  "call_predict_proba m df = Inl e \<Longrightarrow> \<not> is_AttributeError e \<Longrightarrow> get_proba m df = Inl e"
  by (simp add: get_proba_def)

lemma result_events_1:
  "result_events 1 =
     [Markdown ''---'', Subheader ''Prediction Results'',
      MarkdownHtml ''<h2 style='text-align: center; color: #FF4B4B;'>High Risk</h2>'',
      Write ''### Reoperation Probability: 100.0%'']"
  by (simp add: result_events_def color_def risk_level_def format_eval)

lemma get_proba_fallback_model: "get_proba fallback_model df = Inr 1"
  by (simp add: get_proba_def call_predict_proba_def call_predict_def fallback_model_def
      no_attribute_def getitem_def)

lemma app_fallback_model:
  "app (pressed_env (Inr fallback_model)) =
     (page_with_form (\<lambda>label. None) @
      Spinner ''Calculating risk...'' # result_events 1 @ importance_events fallback_model @
      sidebar, Completed)"
proof -
  have "app (pressed_env (Inr fallback_model)) =
     (page_with_form (widget_state (pressed_env (Inr fallback_model))) @
      (if button_pressed (pressed_env (Inr fallback_model))
       then predict_handler fallback_model
              (form_inputs (widget_state (pressed_env (Inr fallback_model))))
       else []) @ sidebar, Completed)"
    by (rule app_loaded) (simp_all add: pressed_env_def)
  then show ?thesis
    by (simp add: pressed_env_def handler_form_inputs get_proba_fallback_model)
qed

section \<open>The risk label\<close>

text \<open>
  C1. For every probability \<open>p\<close> the label derived at line 140 is "High Risk" exactly
  when \<open>p > 0.5\<close> and "Low Risk" exactly when \<open>p \<le> 0.5\<close>; the boundary value 0.5 is
  labelled "Low Risk".
\<close>

theorem risk_level_threshold:
  "(risk_level p = ''High Risk'') = (p > 0.5) \<and>
   (risk_level p = ''Low Risk'') = (p \<le> 0.5) \<and>
   risk_level 0.5 = ''Low Risk''"
  by (simp add: risk_level_def)

section \<open>Inference on schema-valid records\<close>

text \<open>
  C2. For a schema-valid input record and a classifier whose \<^verbatim>\<open>predict_proba\<close> is
  present and answers every frame of the schema's columns with one well-formed
  probability row, the column selection and the inference succeed, the probability lies
  between 0 and 1, and the handler goes on to show the result.
\<close>

theorem inference_probability_in_range:
  assumes "schema_valid inputs"
    and "predict_proba m = Some f"
    and "\<forall>df. columns df = expected_columns \<longrightarrow> (\<exists>rows. f df = Inr rows \<and> well_formed_proba rows)"
  shows "\<exists>input_df proba.
           select_columns (DataFrame_row inputs) expected_columns = Inr input_df \<and>
           get_proba m input_df = Inr proba \<and> 0 \<le> proba \<and> proba \<le> 1 \<and>
           predict_handler m inputs =
             Spinner ''Calculating risk...'' # result_events proba @ importance_events m"
proof -
  have "set expected_columns \<subseteq> set (map fst (DataFrame_row inputs))"
    using schema_valid_keys [OF assms(1)] by (simp add: DataFrame_row_def)
  then obtain input_df where
    sel: "select_columns (DataFrame_row inputs) expected_columns = Inr input_df"
    using select_columns_present by blast
  then have "columns input_df = expected_columns" by (rule select_columns_columns)
  with assms(3) obtain rows where rows: "f input_df = Inr rows" "well_formed_proba rows"
    by blast
  from rows(2) obtain row where row: "rows = [row]" "2 \<le> length row"
      "list_all (\<lambda>x. 0 \<le> x \<and> x \<le> 1) row"
    by (cases rows) (auto simp: well_formed_proba_def)
  from row(2,3) have p: "0 \<le> row ! 1 \<and> row ! 1 \<le> 1"
    by (simp add: list_all_length)
  have g: "get_proba m input_df = Inr (row ! 1)"
    using assms(2) rows(1) row(1,2)
    by (simp add: get_proba_def call_predict_proba_def getitem_def)
  with sel p show ?thesis by (simp add: predict_handler_def)
qed

theorem inference_probability_in_range_witness:
  "schema_valid default_inputs \<and>
   predict_proba (stub_model 0.73) = Some (\<lambda>df. Inr [[1 - 0.73, 0.73]]) \<and>
   (\<exists>input_df proba.
      select_columns (DataFrame_row default_inputs) expected_columns = Inr input_df \<and>
      get_proba (stub_model 0.73) input_df = Inr proba \<and> 0 \<le> proba \<and> proba \<le> 1 \<and>
      predict_handler (stub_model 0.73) default_inputs =
        Spinner ''Calculating risk...'' # result_events proba @ importance_events (stub_model 0.73))"
proof -
  have v: "schema_valid default_inputs"
    by (simp add: schema_valid_def default_inputs_eq expected_columns_def VARIABLE_CONFIG_def)
  have f: "predict_proba (stub_model 0.73) = Some (\<lambda>df. Inr [[1 - 0.73, 0.73]])"
    by (simp add: stub_model_def)
  have w: "\<forall>df. columns df = expected_columns \<longrightarrow>
             (\<exists>rows. (\<lambda>df. Inr [[1 - 0.73, 0.73]]) df = (Inr rows :: exc + real list list) \<and>
                     well_formed_proba rows)"
    by (simp add: well_formed_proba_def)
  from inference_probability_in_range [OF v f w] v f show ?thesis by blast
qed

section \<open>Column order of the input frame\<close>

text \<open>
  C3. Whatever the order in which the raw input mapping holds the schema's parameter
  names, the column selection yields the frame whose columns are the names in the
  declaration order of \<^verbatim>\<open>VARIABLE_CONFIG\<close>, each with the value the mapping gives it,
  and this frame is the argument of both classifier methods: the handler's page is
  computed from \<^verbatim>\<open>predict_proba\<close> applied to it and, on the fallback path, from
  \<^verbatim>\<open>predict\<close> applied to it.
\<close>

theorem input_df_column_order:
  assumes "distinct (map fst inputs)" and "set (map fst inputs) = set expected_columns"
  shows "\<exists>input_df.
           select_columns (DataFrame_row inputs) expected_columns = Inr input_df \<and>
           input_df = map (\<lambda>c. (c, the (map_of inputs c))) expected_columns \<and>
           columns input_df = expected_columns \<and>
           map_of input_df = map_of inputs \<and>
           predict_handler m inputs =
             Spinner ''Calculating risk...'' #
             (case (case (case (case predict_proba m of
                                  None \<Rightarrow> Inl (no_attribute m ''predict_proba'')
                                | Some f \<Rightarrow> f input_df) of
                            Inl e \<Rightarrow> Inl e
                          | Inr rows \<Rightarrow>
                              (case getitem rows 0 of Inl e \<Rightarrow> Inl e | Inr row \<Rightarrow> getitem row 1)) of
                      Inr proba \<Rightarrow> Inr proba
                    | Inl e \<Rightarrow>
                        if is_AttributeError e
                        then (case (case predict m of
                                      None \<Rightarrow> Inl (no_attribute m ''predict'')
                                    | Some g \<Rightarrow> g input_df) of
                                Inl e' \<Rightarrow> Inl e'
                              | Inr prediction \<Rightarrow> getitem prediction 0)
                        else Inl e) of
                Inl e \<Rightarrow> prediction_failed e
              | Inr proba \<Rightarrow> result_events proba @ importance_events m)"
proof -
  define input_df where "input_df = map (\<lambda>c. (c, the (map_of inputs c))) expected_columns"
  from assms(2) have "set expected_columns \<subseteq> set (map fst (DataFrame_row inputs))"
    by (simp add: DataFrame_row_def)
  then have sel: "select_columns (DataFrame_row inputs) expected_columns = Inr input_df"
    unfolding input_df_def using select_columns_present [of expected_columns "DataFrame_row inputs"]
    by (simp add: DataFrame_row_def)
  have cols: "columns input_df = expected_columns"
    using sel by (rule select_columns_columns)
  have "map_of input_df c = map_of inputs c" for c
  proof (cases "c \<in> set expected_columns")
    case True
    with sel show ?thesis
      using select_columns_values [of "DataFrame_row inputs" expected_columns input_df c]
      by (simp add: DataFrame_row_def)
  next
    case False
    from cols have "fst ` set input_df = set expected_columns"
      by (simp add: columns_def set_map [symmetric] del: set_map)
    with False have "map_of input_df c = None"
      by (simp add: map_of_eq_None_iff [of input_df c])
    moreover from False assms(2) have "map_of inputs c = None"
      by (simp add: map_of_eq_None_iff [of inputs c])
    ultimately show ?thesis by simp
  qed
  then have maps: "map_of input_df = map_of inputs" by (rule ext)
  have "predict_handler m inputs =
          Spinner ''Calculating risk...'' #
          (case get_proba m input_df of
             Inl e \<Rightarrow> prediction_failed e
           | Inr proba \<Rightarrow> result_events proba @ importance_events m)"
    using sel by (simp add: predict_handler_def)
  then have handler: "predict_handler m inputs =
             Spinner ''Calculating risk...'' #
             (case (case (case (case predict_proba m of
                                  None \<Rightarrow> Inl (no_attribute m ''predict_proba'')
                                | Some f \<Rightarrow> f input_df) of
                            Inl e \<Rightarrow> Inl e
                          | Inr rows \<Rightarrow>
                              (case getitem rows 0 of Inl e \<Rightarrow> Inl e | Inr row \<Rightarrow> getitem row 1)) of
                      Inr proba \<Rightarrow> Inr proba
                    | Inl e \<Rightarrow>
                        if is_AttributeError e
                        then (case (case predict m of
                                      None \<Rightarrow> Inl (no_attribute m ''predict'')
                                    | Some g \<Rightarrow> g input_df) of
                                Inl e' \<Rightarrow> Inl e'
                              | Inr prediction \<Rightarrow> getitem prediction 0)
                        else Inl e) of
                Inl e \<Rightarrow> prediction_failed e
              | Inr proba \<Rightarrow> result_events proba @ importance_events m)"
    unfolding get_proba_def call_predict_proba_def call_predict_def .
  from sel cols maps handler show ?thesis
    unfolding input_df_def by blast
qed

theorem input_df_column_order_witness:
  "distinct (map fst (rev default_inputs)) \<and>
   set (map fst (rev default_inputs)) = set expected_columns \<and>
   select_columns (DataFrame_row (rev default_inputs)) expected_columns = Inr default_inputs \<and>
   predict_handler (probe_model default_inputs) (rev default_inputs) =
     Spinner ''Calculating risk...'' # result_events 1 @
     importance_events (probe_model default_inputs) \<and>
   predict_handler (probe_model (rev default_inputs)) (rev default_inputs) =
     Spinner ''Calculating risk...'' # result_events 0 @
     importance_events (probe_model (rev default_inputs))"
proof -
  have keys: "map fst (rev default_inputs) = rev expected_columns"
    unfolding default_inputs_def by (simp add: rev_map [symmetric] columns_form_inputs)
  have d: "distinct (map fst (rev default_inputs))"
    by (simp add: keys distinct_expected_columns)
  have s: "set (map fst (rev default_inputs)) = set expected_columns"
    by (simp add: keys)
  have frame: "map (\<lambda>c. (c, the (map_of (rev default_inputs) c))) expected_columns = default_inputs"
    by (simp add: default_inputs_eq expected_columns_def VARIABLE_CONFIG_def)
  have differs: "default_inputs \<noteq> rev default_inputs"
    by (simp add: default_inputs_eq)
  from input_df_column_order [OF d s, of "probe_model default_inputs"]
  have one: "select_columns (DataFrame_row (rev default_inputs)) expected_columns = Inr default_inputs \<and>
        predict_handler (probe_model default_inputs) (rev default_inputs) =
          Spinner ''Calculating risk...'' # result_events 1 @
          importance_events (probe_model default_inputs)"
    by (simp add: frame probe_model_def getitem_def)
  from input_df_column_order [OF d s, of "probe_model (rev default_inputs)"]
  have two: "predict_handler (probe_model (rev default_inputs)) (rev default_inputs) =
          Spinner ''Calculating risk...'' # result_events 0 @
          importance_events (probe_model (rev default_inputs))"
    using differs by (simp add: frame probe_model_def getitem_def)
  from d s one two show ?thesis by blast
qed

section \<open>The fallback to predict\<close>

text \<open>
  C4. When the call of \<^verbatim>\<open>predict_proba\<close> ends in AttributeError, the handler calls
  \<^verbatim>\<open>predict\<close> on the same frame and takes the first element of its output as the
  probability: that element is compared with 0.5 for the heading and the colour, and it
  is the number shown as a percentage.
\<close>

theorem fallback_to_predict:
  assumes "select_columns (DataFrame_row inputs) expected_columns = Inr input_df"
    and "call_predict_proba m input_df = Inl e"
    and "is_AttributeError e"
    and "call_predict m input_df = Inr (v # rest)"
  shows "get_proba m input_df = Inr v \<and>
         predict_handler m inputs =
           Spinner ''Calculating risk...'' #
           [Markdown ''---'', Subheader ''Prediction Results'',
            MarkdownHtml (''<h2 style='text-align: center; color: '' @ color v @ '';'>''
                          @ risk_level v @ ''</h2>''),
            Write (''### Reoperation Probability: '' @ format_percent v)] @
           importance_events m"
proof -
  have "get_proba m input_df = Inr v"
    using assms(2-4) by (simp add: get_proba_def getitem_def)
  with assms(1) show ?thesis by (simp add: predict_handler_def result_events_def)
qed

theorem fallback_to_predict_witness:
  "select_columns (DataFrame_row default_inputs) expected_columns = Inr default_inputs \<and>
   call_predict_proba fallback_model default_inputs = Inl (no_attribute fallback_model ''predict_proba'') \<and>
   is_AttributeError (no_attribute fallback_model ''predict_proba'') \<and>
   call_predict fallback_model default_inputs = Inr [1] \<and>
   get_proba fallback_model default_inputs = Inr 1 \<and>
   predict_handler fallback_model default_inputs =
     Spinner ''Calculating risk...'' #
     [Markdown ''---'', Subheader ''Prediction Results'',
      MarkdownHtml ''<h2 style='text-align: center; color: #FF4B4B;'>High Risk</h2>'',
      Write ''### Reoperation Probability: 100.0%''] @
     importance_events fallback_model"
proof -
  have s: "select_columns (DataFrame_row default_inputs) expected_columns = Inr default_inputs"
    unfolding default_inputs_def by (rule select_form_inputs)
  have p: "call_predict_proba fallback_model default_inputs =
             Inl (no_attribute fallback_model ''predict_proba'')"
    by (simp add: call_predict_proba_def fallback_model_def)
  have a: "is_AttributeError (no_attribute fallback_model ''predict_proba'')"
    by (simp add: no_attribute_def)
  have q: "call_predict fallback_model default_inputs = Inr [1]"
    by (simp add: call_predict_def fallback_model_def)
  have f: "format_percent 1 = ''100.0%''"
    by (simp add: format_eval)
  from fallback_to_predict [OF s p a q] s p a q show ?thesis
    by (simp add: color_def risk_level_def f)
qed

section \<open>Failure to load the artifact\<close>

text \<open>
  C5. When \<^verbatim>\<open>joblib.load\<close> raises, the run shows the error with the exception's text,
  stops, and has rendered no number input. More generally a run shows the form exactly
  when joblib was imported and the model was loaded.
\<close>

theorem load_failure_halts_before_form:
  assumes "joblib_import env = None" and "joblib_load env = Inl e"
  shows "app env =
           (page_config @
            [Success (check_mark @ '' joblib successfully imported''),
             Error (cross_mark @ '' Failed to load model: '' @ str_exc e),
             Error ''Please ensure 'model.joblib' exists and is a valid joblib file'',
             Stop], Stopped) \<and>
         \<not> list_ex is_NumberInput (fst (app env)) \<and>
         (\<forall>env'. list_ex is_NumberInput (fst (app env')) =
                   (joblib_import env' = None \<and> (\<exists>m. joblib_load env' = Inr m)))"
proof -
  have "app env =
           (page_config @
            [Success (check_mark @ '' joblib successfully imported''),
             Error (cross_mark @ '' Failed to load model: '' @ str_exc e),
             Error ''Please ensure 'model.joblib' exists and is a valid joblib file'',
             Stop], Stopped)"
    using assms by (simp add: app_def)
  moreover have "\<not> list_ex is_NumberInput (fst (app env))"
    using assms by (simp add: form_shown_iff)
  ultimately show ?thesis using form_shown_iff by blast
qed

theorem load_failure_halts_before_form_witness:
  "joblib_import (pressed_env (Inl (Exc OtherException ''No such file or directory''))) = None \<and>
   joblib_load (pressed_env (Inl (Exc OtherException ''No such file or directory''))) =
     Inl (Exc OtherException ''No such file or directory'') \<and>
   app (pressed_env (Inl (Exc OtherException ''No such file or directory''))) =
     (page_config @
      [Success (check_mark @ '' joblib successfully imported''),
       Error (cross_mark @ '' Failed to load model: No such file or directory''),
       Error ''Please ensure 'model.joblib' exists and is a valid joblib file'',
       Stop], Stopped) \<and>
   \<not> list_ex is_NumberInput
       (fst (app (pressed_env (Inl (Exc OtherException ''No such file or directory'')))))"
proof -
  have i: "joblib_import (pressed_env (Inl (Exc OtherException ''No such file or directory''))) = None"
    by (simp add: pressed_env_def)
  have l: "joblib_load (pressed_env (Inl (Exc OtherException ''No such file or directory''))) =
             Inl (Exc OtherException ''No such file or directory'')"
    by (simp add: pressed_env_def)
  from load_failure_halts_before_form [OF i l] i l show ?thesis
    by (simp add: page_config_def)
qed

section \<open>Importance not available\<close>

text \<open>
  C6. After a successful prediction, if the model has neither
  \<^verbatim>\<open>feature_importances_\<close> nor \<^verbatim>\<open>coef_\<close>, or if building the importance table raises,
  the run shows the prediction result, then a warning with the exception's text and an
  info line, and it completes: nothing is left unhandled.
\<close>

theorem importance_unavailable_is_warning:
  assumes "joblib_import env = None" and "joblib_load env = Inr m" and "button_pressed env"
    and "get_proba m (form_inputs (widget_state env)) = Inr proba"
    and "(feature_importances_attr m = None \<and> coef_attr m = None) \<or> importance_df m = Inl e"
  shows "\<exists>e'. importance_df m = Inl e' \<and>
           app env =
             (page_with_form (widget_state env) @
              Spinner ''Calculating risk...'' # result_events proba @
              [Markdown ''---'', Subheader ''Key Risk Factors'',
               Warning (warning_sign @ '' Feature importance not available: '' @ str_exc e'),
               Info ''The model does not provide feature importance data''] @
              sidebar, Completed)"
proof -
  from assms(5) obtain e' where e': "importance_df m = Inl e'"
    using importance_df_neither by blast
  have "app env =
          (page_with_form (widget_state env) @
           predict_handler m (form_inputs (widget_state env)) @ sidebar, Completed)"
    using assms(1-3) by (simp add: app_loaded)
  moreover have "predict_handler m (form_inputs (widget_state env)) =
          Spinner ''Calculating risk...'' # result_events proba @ unavailable_events e'"
    using assms(4) e' by (simp add: handler_form_inputs importance_events_unavailable)
  ultimately show ?thesis using e' by (simp add: unavailable_events_def)
qed

theorem importance_unavailable_is_warning_witness:
  "joblib_import (pressed_env (Inr (stub_model 0.73))) = None \<and>
   joblib_load (pressed_env (Inr (stub_model 0.73))) = Inr (stub_model 0.73) \<and>
   button_pressed (pressed_env (Inr (stub_model 0.73))) \<and>
   get_proba (stub_model 0.73) (form_inputs (widget_state (pressed_env (Inr (stub_model 0.73)))))
     = Inr 0.73 \<and>
   feature_importances_attr (stub_model 0.73) = None \<and> coef_attr (stub_model 0.73) = None \<and>
   (\<exists>e'. importance_df (stub_model 0.73) = Inl e' \<and>
      app (pressed_env (Inr (stub_model 0.73))) =
        (page_with_form (widget_state (pressed_env (Inr (stub_model 0.73)))) @
         Spinner ''Calculating risk...'' # result_events 0.73 @
         [Markdown ''---'', Subheader ''Key Risk Factors'',
          Warning (warning_sign @ '' Feature importance not available: '' @ str_exc e'),
          Info ''The model does not provide feature importance data''] @
         sidebar, Completed))"
proof -
  let ?env = "pressed_env (Inr (stub_model 0.73))"
  have i: "joblib_import ?env = None" by (simp add: pressed_env_def)
  have l: "joblib_load ?env = Inr (stub_model 0.73)" by (simp add: pressed_env_def)
  have b: "button_pressed ?env" by (simp add: pressed_env_def)
  have g: "get_proba (stub_model 0.73) (form_inputs (widget_state ?env)) = Inr 0.73"
    by (simp add: get_proba_def call_predict_proba_def stub_model_def getitem_def)
  have n: "feature_importances_attr (stub_model 0.73) = None \<and> coef_attr (stub_model 0.73) = None"
    by (simp add: stub_model_def)
  then have d: "(feature_importances_attr (stub_model 0.73) = None \<and>
                 coef_attr (stub_model 0.73) = None) \<or>
                importance_df (stub_model 0.73) = Inl (Exc OtherException '''')"
    by simp
  from importance_unavailable_is_warning [OF i l b g d] i l b g n show ?thesis by blast
qed

section \<open>The importance ranking\<close>

text \<open>
  C7. If the model has \<^verbatim>\<open>feature_importances_\<close>, that vector is the importance,
  whatever \<^verbatim>\<open>coef_\<close> is; if reading \<^verbatim>\<open>feature_importances_\<close> raises AttributeError (the
  attribute is absent or a property that raises it), the importance is the first row of
  \<^verbatim>\<open>coef_\<close>. When that vector has the schema's length, every row of the table pairs a
  weight with the schema name at the same position, the rows are those pairs ordered by
  falling weight, and the table is shown both as a bar chart indexed by feature and as a
  data frame.
\<close>

theorem importance_ranking:
  assumes "feature_importances_attr m = Some (Inr importance) \<or>
           ((feature_importances_attr m = None \<or>
             (\<exists>msg. feature_importances_attr m = Some (Inl (Exc AttributeError msg)))) \<and>
            coef_attr m = Some (Inr (Array2 (importance # rest))))"
    and "length importance = length expected_columns"
  shows "\<exists>rows.
           importance_events m =
             [Markdown ''---'', Subheader ''Key Risk Factors'',
              BarChart (map snd rows), DataFrameView rows] \<and>
           mset rows = mset (zip [0..<length expected_columns] (zip expected_columns importance)) \<and>
           mset (map snd rows) = mset (zip expected_columns importance) \<and>
           list_all (\<lambda>(i, name, w). i < length expected_columns \<and>
                       name = expected_columns ! i \<and> w = importance ! i) rows \<and>
           sorted_wrt (\<ge>) (map weight rows)"
proof -
  from assms(1) have "get_importance m = Inr (Vector importance)"
    using get_importance_feature_importances get_importance_coef by blast
  then show ?thesis using assms(2) by (rule importance_events_vector)
qed

theorem importance_ranking_witness:
  "feature_importances_attr fallback_model =
     Some (Inr [0.02, 0.2, 0.1, 0.04, 0.12, 0.06, 0.08, 0.03, 0.14, 0.16, 0.05]) \<and>
   length [0.02, 0.2, 0.1, 0.04, 0.12, 0.06, 0.08, 0.03, 0.14, 0.16, 0.05 :: real] =
     length expected_columns \<and>
   (\<exists>rows.
      importance_events fallback_model =
        [Markdown ''---'', Subheader ''Key Risk Factors'',
         BarChart (map snd rows), DataFrameView rows] \<and>
      mset (map snd rows) =
        mset (zip expected_columns [0.02, 0.2, 0.1, 0.04, 0.12, 0.06, 0.08, 0.03, 0.14, 0.16, 0.05]) \<and>
      sorted_wrt (\<ge>) (map weight rows)) \<and>
   feature_importances_attr linear_model = None \<and>
   coef_attr linear_model =
     Some (Inr (Array2 [[0.3, - 0.2, 0.5, 0.1, - 0.4, 0.05, 0.25, - 0.1, 0.6, 0.45, - 0.3]])) \<and>
   (\<exists>rows.
      importance_events linear_model =
        [Markdown ''---'', Subheader ''Key Risk Factors'',
         BarChart (map snd rows), DataFrameView rows] \<and>
      mset (map snd rows) =
        mset (zip expected_columns [0.3, - 0.2, 0.5, 0.1, - 0.4, 0.05, 0.25, - 0.1, 0.6, 0.45, - 0.3]) \<and>
      sorted_wrt (\<ge>) (map weight rows)) \<and>
   importance_events linear_model =
     [Markdown ''---'', Subheader ''Key Risk Factors'',
      BarChart
        [(''Functional dependencies'', 0.6), (''tumor location'', 0.5), (''mFI-5'', 0.45),
         (''Sex'', 0.3), (''diabetes'', 0.25), (''Benign or malignant'', 0.1),
         (''Duration of surgery'', 0.05), (''CHF'', - 0.1), (''ASA scores'', - 0.2),
         (''Type of tumor'', - 0.3), (''Admitted to NICU'', - 0.4)],
      DataFrameView
        [(8, ''Functional dependencies'', 0.6), (2, ''tumor location'', 0.5), (9, ''mFI-5'', 0.45),
         (0, ''Sex'', 0.3), (6, ''diabetes'', 0.25), (3, ''Benign or malignant'', 0.1),
         (5, ''Duration of surgery'', 0.05), (7, ''CHF'', - 0.1), (1, ''ASA scores'', - 0.2),
         (10, ''Type of tumor'', - 0.3), (4, ''Admitted to NICU'', - 0.4)]] \<and>
   (\<exists>rows.
      importance_events
        (linear_model\<lparr>feature_importances_attr :=
           Some (Inr [0.02, 0.2, 0.1, 0.04, 0.12, 0.06, 0.08, 0.03, 0.14, 0.16, 0.05])\<rparr>) =
        [Markdown ''---'', Subheader ''Key Risk Factors'',
         BarChart (map snd rows), DataFrameView rows] \<and>
      mset (map snd rows) =
        mset (zip expected_columns [0.02, 0.2, 0.1, 0.04, 0.12, 0.06, 0.08, 0.03, 0.14, 0.16, 0.05]) \<and>
      sorted_wrt (\<ge>) (map weight rows))"
proof -
  let ?v = "[0.02, 0.2, 0.1, 0.04, 0.12, 0.06, 0.08, 0.03, 0.14, 0.16, 0.05 :: real]"
  let ?c = "[0.3, - 0.2, 0.5, 0.1, - 0.4, 0.05, 0.25, - 0.1, 0.6, 0.45, - 0.3 :: real]"
  have f: "feature_importances_attr fallback_model = Some (Inr ?v)"
    by (simp add: fallback_model_def)
  have lf: "length ?v = length expected_columns"
    by (simp add: length_expected_columns)
  have n: "feature_importances_attr linear_model = None"
    by (simp add: linear_model_def)
  have c: "coef_attr linear_model = Some (Inr (Array2 (?c # [])))"
    by (simp add: linear_model_def)
  have lc: "length ?c = length expected_columns"
    by (simp add: length_expected_columns)
  from f have src1: "feature_importances_attr fallback_model = Some (Inr ?v) \<or>
           ((feature_importances_attr fallback_model = None \<or>
             (\<exists>msg. feature_importances_attr fallback_model = Some (Inl (Exc AttributeError msg)))) \<and>
            coef_attr fallback_model = Some (Inr (Array2 (?v # []))))"
    by simp
  from n c have src2: "feature_importances_attr linear_model = Some (Inr ?c) \<or>
           ((feature_importances_attr linear_model = None \<or>
             (\<exists>msg. feature_importances_attr linear_model = Some (Inl (Exc AttributeError msg)))) \<and>
            coef_attr linear_model = Some (Inr (Array2 (?c # []))))"
    by simp
  have src3: "feature_importances_attr (linear_model\<lparr>feature_importances_attr := Some (Inr ?v)\<rparr>) =
                Some (Inr ?v) \<or>
           ((feature_importances_attr (linear_model\<lparr>feature_importances_attr := Some (Inr ?v)\<rparr>) = None \<or>
             (\<exists>msg. feature_importances_attr (linear_model\<lparr>feature_importances_attr := Some (Inr ?v)\<rparr>) =
                    Some (Inl (Exc AttributeError msg)))) \<and>
            coef_attr (linear_model\<lparr>feature_importances_attr := Some (Inr ?v)\<rparr>) =
              Some (Inr (Array2 (?v # []))))"
    by simp
  from importance_ranking [OF src1 lf] importance_ranking [OF src2 lc]
    importance_ranking [OF src3 lf] f lf n c importance_events_linear_model
  show ?thesis by blast
qed

section \<open>The example scenarios\<close>

text \<open>
  C8. On the record of schema defaults, the stub whose probability is the double that
  the literal 0.73 denotes shows the heading "High Risk" and the line "73.0%", and the
  stub with probability 0.5 shows "Low Risk" and "50.0%". For every value whose hundredfold
  stays in the range of doubles, the text shown is an optional minus sign, a run of
  digits without a superfluous leading zero, a point, exactly one digit and a percent
  sign, and the number it denotes is the hundredfold of the value to within half a unit
  of its last digit and the rounding of the product.
\<close>

theorem stub_scenarios:
  assumes "\<bar>p\<bar> * 100 < 2 ^ 1023"
  shows "default_inputs =
     [(''Sex'', 0), (''ASA scores'', 2), (''tumor location'', 2), (''Benign or malignant'', 0),
      (''Admitted to NICU'', 0), (''Duration of surgery'', 0), (''diabetes'', 0), (''CHF'', 0),
      (''Functional dependencies'', 0), (''mFI-5'', 1), (''Type of tumor'', 2)] \<and>
   predict_handler (stub_model (py_float 0.73)) default_inputs =
     Spinner ''Calculating risk...'' #
     [Markdown ''---'', Subheader ''Prediction Results'',
      MarkdownHtml ''<h2 style='text-align: center; color: #FF4B4B;'>High Risk</h2>'',
      Write ''### Reoperation Probability: 73.0%''] @
     importance_events (stub_model (py_float 0.73)) \<and>
   predict_handler (stub_model 0.5) default_inputs =
     Spinner ''Calculating risk...'' #
     [Markdown ''---'', Subheader ''Prediction Results'',
      MarkdownHtml ''<h2 style='text-align: center; color: #00CC96;'>Low Risk</h2>'',
      Write ''### Reoperation Probability: 50.0%''] @
     importance_events (stub_model 0.5) \<and>
   (\<exists>ip d.
      result_events p =
        [Markdown ''---'', Subheader ''Prediction Results'',
         MarkdownHtml (''<h2 style='text-align: center; color: '' @ color p @ '';'>''
                       @ risk_level p @ ''</h2>''),
         Write (''### Reoperation Probability: '' @
                (if p < 0 then ''-'' else '''') @ ip @ ''.'' @ [d] @ ''%'')] \<and>
      ip \<noteq> [] \<and> list_all is_digit ip \<and> (ip = ''0'' \<or> hd ip \<noteq> CHR ''0'') \<and> is_digit d \<and>
      \<bar>real (decimal_value ip) + real (digit_value d) / 10 - \<bar>p\<bar> * 100\<bar>
        \<le> 1 / 20 + (\<bar>p\<bar> * 100 + 1) / 2 ^ 53)"
proof -
  have "predict_handler (stub_model (py_float 0.73)) default_inputs =
          Spinner ''Calculating risk...'' # result_events (py_float 0.73) @
          importance_events (stub_model (py_float 0.73))"
    by (rule handler_stub)
  moreover have "predict_handler (stub_model 0.5) default_inputs =
          Spinner ''Calculating risk...'' # result_events 0.5 @ importance_events (stub_model 0.5)"
    by (rule handler_stub)
  ultimately show ?thesis
    using default_inputs_eq result_events_value [OF assms]
    by (simp only: result_events_073 result_events_05 simp_thms)
qed

theorem stub_scenarios_witness:
  "\<bar>py_float 0.7255\<bar> * 100 < 2 ^ 1023 \<and>
   py_float 0.7255 = 3267361529657295 / 4503599627370496 \<and>
   result_events (py_float 0.7255) =
     [Markdown ''---'', Subheader ''Prediction Results'',
      MarkdownHtml ''<h2 style='text-align: center; color: #FF4B4B;'>High Risk</h2>'',
      Write ''### Reoperation Probability: 72.5%''] \<and>
   (\<exists>ip d.
      result_events (py_float 0.7255) =
        [Markdown ''---'', Subheader ''Prediction Results'',
         MarkdownHtml (''<h2 style='text-align: center; color: '' @ color (py_float 0.7255) @ '';'>''
                       @ risk_level (py_float 0.7255) @ ''</h2>''),
         Write (''### Reoperation Probability: '' @
                (if py_float 0.7255 < 0 then ''-'' else '''') @ ip @ ''.'' @ [d] @ ''%'')] \<and>
      ip \<noteq> [] \<and> list_all is_digit ip \<and> (ip = ''0'' \<or> hd ip \<noteq> CHR ''0'') \<and> is_digit d \<and>
      \<bar>real (decimal_value ip) + real (digit_value d) / 10 - \<bar>py_float 0.7255\<bar> * 100\<bar>
        \<le> 1 / 20 + (\<bar>py_float 0.7255\<bar> * 100 + 1) / 2 ^ 53) \<and>
   predict_handler (stub_model 0.5) default_inputs =
     Spinner ''Calculating risk...'' #
     [Markdown ''---'', Subheader ''Prediction Results'',
      MarkdownHtml ''<h2 style='text-align: center; color: #00CC96;'>Low Risk</h2>'',
      Write ''### Reoperation Probability: 50.0%''] @
     importance_events (stub_model 0.5)"
proof -
  have v: "py_float 0.7255 = 3267361529657295 / 4503599627370496"
    by (simp add: format_eval)
  have h: "\<bar>py_float 0.7255\<bar> * 100 < 2 ^ 1023"
    unfolding v by simp
  have r: "result_events (py_float 0.7255) =
     [Markdown ''---'', Subheader ''Prediction Results'',
      MarkdownHtml ''<h2 style='text-align: center; color: #FF4B4B;'>High Risk</h2>'',
      Write ''### Reoperation Probability: 72.5%'']"
    by (simp add: result_events_def color_def risk_level_def format_eval)
  from stub_scenarios [OF h] v h r show ?thesis by blast
qed

section \<open>No warning on the fallback path\<close>

text \<open>
  C9, as stated, does not hold: on the fallback path the script shows no warning. A model
  without \<^verbatim>\<open>predict_proba\<close> that predicts class 1 yields a page without any warning on
  which the prediction is shown as "100.0%".
\<close>

theorem fallback_warning_counterexample:
  "predict_proba fallback_model = None \<and>
   get_proba fallback_model default_inputs = Inr 1 \<and>
   \<not> list_ex is_Warning (fst (app (pressed_env (Inr fallback_model)))) \<and>
   list_ex (\<lambda>ev. ev = Write ''### Reoperation Probability: 100.0%'')
     (fst (app (pressed_env (Inr fallback_model))))"
proof -
  have "predict_proba fallback_model = None" by (simp add: fallback_model_def)
  moreover have "get_proba fallback_model default_inputs = Inr 1"
    by (rule get_proba_fallback_model)
  moreover have "\<not> list_ex is_Warning (fst (app (pressed_env (Inr fallback_model))))"
    by (simp add: app_fallback_model no_warning_in_form no_warning_in_sidebar result_events_1
        importance_events_fallback_model)
  moreover have "list_ex (\<lambda>ev. ev = Write ''### Reoperation Probability: 100.0%'')
     (fst (app (pressed_env (Inr fallback_model))))"
    by (simp add: app_fallback_model result_events_1)
  ultimately show ?thesis by blast
qed

text \<open>
  C9, amended. When the fallback path is taken, the page has no warning about it: up to
  the importance section it carries no warning at all, and the whole page equals the
  page of the same model with a \<^verbatim>\<open>predict_proba\<close> that returns the same value.
\<close>

theorem fallback_is_silent:
  assumes "joblib_import env = None" and "joblib_load env = Inr m" and "button_pressed env"
    and "call_predict_proba m (form_inputs (widget_state env)) = Inl e"
    and "is_AttributeError e"
    and "call_predict m (form_inputs (widget_state env)) = Inr (v # rest)"
  shows "app env =
           (page_with_form (widget_state env) @
            Spinner ''Calculating risk...'' # result_events v @ importance_events m @
            sidebar, Completed) \<and>
         \<not> list_ex is_Warning
             (page_with_form (widget_state env) @ Spinner ''Calculating risk...'' # result_events v) \<and>
         app (env\<lparr>joblib_load := Inr (m\<lparr>predict_proba := Some (\<lambda>df. Inr [[1 - v, v]])\<rparr>)\<rparr>) =
           app env"
proof -
  let ?w = "widget_state env"
  let ?m' = "m\<lparr>predict_proba := Some (\<lambda>df. Inr [[1 - v, v]])\<rparr>"
  let ?env' = "env\<lparr>joblib_load := Inr ?m'\<rparr>"
  have g: "get_proba m (form_inputs ?w) = Inr v"
    using assms(4-6) by (simp add: get_proba_fallback getitem_def)
  have a: "app env =
           (page_with_form ?w @
            Spinner ''Calculating risk...'' # result_events v @ importance_events m @
            sidebar, Completed)"
    using assms(1-3) g by (simp add: app_loaded handler_form_inputs)
  have g': "get_proba ?m' (form_inputs ?w) = Inr v"
    by (simp add: get_proba_def call_predict_proba_def getitem_def)
  have "app ?env' =
          (page_with_form (widget_state ?env') @
           (if button_pressed ?env' then predict_handler ?m' (form_inputs (widget_state ?env'))
            else []) @ sidebar, Completed)"
    using assms(1) by (intro app_loaded) simp_all
  then have a': "app ?env' =
           (page_with_form ?w @
            Spinner ''Calculating risk...'' # result_events v @ importance_events m @
            sidebar, Completed)"
    using assms(3) g'
    by (simp add: handler_form_inputs importance_events_predict_proba_update)
  have "\<not> list_ex is_Warning (page_with_form ?w @ Spinner ''Calculating risk...'' # result_events v)"
    by (simp add: no_warning_in_form no_warning_in_result)
  with a a' show ?thesis by simp
qed

theorem fallback_is_silent_witness:
  "joblib_import (pressed_env (Inr fallback_model)) = None \<and>
   joblib_load (pressed_env (Inr fallback_model)) = Inr fallback_model \<and>
   button_pressed (pressed_env (Inr fallback_model)) \<and>
   call_predict_proba fallback_model (form_inputs (widget_state (pressed_env (Inr fallback_model))))
     = Inl (no_attribute fallback_model ''predict_proba'') \<and>
   is_AttributeError (no_attribute fallback_model ''predict_proba'') \<and>
   call_predict fallback_model (form_inputs (widget_state (pressed_env (Inr fallback_model))))
     = Inr [1] \<and>
   app (pressed_env (Inr fallback_model)
          \<lparr>joblib_load := Inr (fallback_model\<lparr>predict_proba := Some (\<lambda>df. Inr [[1 - 1, 1]])\<rparr>)\<rparr>) =
     app (pressed_env (Inr fallback_model))"
proof -
  let ?env = "pressed_env (Inr fallback_model)"
  have i: "joblib_import ?env = None" by (simp add: pressed_env_def)
  have l: "joblib_load ?env = Inr fallback_model" by (simp add: pressed_env_def)
  have b: "button_pressed ?env" by (simp add: pressed_env_def)
  have p: "call_predict_proba fallback_model (form_inputs (widget_state ?env)) =
             Inl (no_attribute fallback_model ''predict_proba'')"
    by (simp add: call_predict_proba_def fallback_model_def)
  have a: "is_AttributeError (no_attribute fallback_model ''predict_proba'')"
    by (simp add: no_attribute_def)
  have q: "call_predict fallback_model (form_inputs (widget_state ?env)) = Inr [1]"
    by (simp add: call_predict_def fallback_model_def)
  from fallback_is_silent [OF i l b p a q] i l b p a q show ?thesis by blast
qed

section \<open>Which exceptions trigger the fallback\<close>

text \<open>
  C10. Let the call of \<^verbatim>\<open>predict_proba\<close> raise \<open>e\<close>, whether because the method is
  absent or from inside the call. If \<open>e\<close> is an AttributeError, the probability is
  whatever the fallback to \<^verbatim>\<open>predict\<close> gives. Otherwise \<open>e\<close> itself is the outcome
  whatever \<^verbatim>\<open>predict\<close> is, the outer handler reports "Prediction failed" with the
  text of \<open>e\<close>, and the run completes with the form rendered.
\<close>

theorem attribute_error_decides_fallback:
  assumes "joblib_import env = None" and "joblib_load env = Inr m" and "button_pressed env"
    and "call_predict_proba m (form_inputs (widget_state env)) = Inl e"
  shows "get_proba m (form_inputs (widget_state env)) =
           (if is_AttributeError e
            then (case call_predict m (form_inputs (widget_state env)) of
                    Inl e' \<Rightarrow> Inl e'
                  | Inr prediction \<Rightarrow> getitem prediction 0)
            else Inl e) \<and>
         (is_AttributeError e \<or>
          (\<forall>q. get_proba (m\<lparr>predict := q\<rparr>) (form_inputs (widget_state env)) = Inl e)) \<and>
         app env =
           (page_with_form (widget_state env) @
            Spinner ''Calculating risk...'' #
            (if is_AttributeError e
             then (case get_proba m (form_inputs (widget_state env)) of
                     Inl e' \<Rightarrow> prediction_failed e'
                   | Inr proba \<Rightarrow> result_events proba @ importance_events m)
             else [Error (cross_mark @ '' Prediction failed: '' @ str_exc e),
                   Error ''Please check your input values and try again'']) @
            sidebar, Completed)"
proof -
  let ?df = "form_inputs (widget_state env)"
  have g: "get_proba m ?df =
           (if is_AttributeError e
            then (case call_predict m ?df of
                    Inl e' \<Rightarrow> Inl e'
                  | Inr prediction \<Rightarrow> getitem prediction 0)
            else Inl e)"
    using assms(4) by (simp add: get_proba_fallback get_proba_other_error)
  have q: "is_AttributeError e \<or> (\<forall>q. get_proba (m\<lparr>predict := q\<rparr>) ?df = Inl e)"
  proof (cases "is_AttributeError e")
    case True
    then show ?thesis by simp
  next
    case False
    have "call_predict_proba (m\<lparr>predict := q\<rparr>) ?df = Inl e" for q
      using assms(4)
      by (simp add: call_predict_proba_def no_attribute_predict_update cong: option.case_cong)
    with False show ?thesis by (simp add: get_proba_other_error)
  qed
  have "app env = (page_with_form (widget_state env) @ predict_handler m ?df @ sidebar, Completed)"
    using assms(1-3) by (simp add: app_loaded)
  then have a: "app env =
           (page_with_form (widget_state env) @
            Spinner ''Calculating risk...'' #
            (if is_AttributeError e
             then (case get_proba m ?df of
                     Inl e' \<Rightarrow> prediction_failed e'
                   | Inr proba \<Rightarrow> result_events proba @ importance_events m)
             else [Error (cross_mark @ '' Prediction failed: '' @ str_exc e),
                   Error ''Please check your input values and try again'']) @
            sidebar, Completed)"
    using assms(4)
    by (simp add: handler_form_inputs get_proba_other_error prediction_failed_def)
  from g q a show ?thesis by blast
qed

theorem attribute_error_decides_fallback_witness:
  "joblib_import (pressed_env (Inr (raising_model (Exc ValueError ''bad input'')))) = None \<and>
   joblib_load (pressed_env (Inr (raising_model (Exc ValueError ''bad input'')))) =
     Inr (raising_model (Exc ValueError ''bad input'')) \<and>
   button_pressed (pressed_env (Inr (raising_model (Exc ValueError ''bad input'')))) \<and>
   call_predict_proba (raising_model (Exc ValueError ''bad input'')) default_inputs =
     Inl (Exc ValueError ''bad input'') \<and>
   get_proba (raising_model (Exc ValueError ''bad input'')) default_inputs =
     Inl (Exc ValueError ''bad input'') \<and>
   app (pressed_env (Inr (raising_model (Exc ValueError ''bad input'')))) =
     (page_with_form (\<lambda>label. None) @
      [Spinner ''Calculating risk...'',
       Error (cross_mark @ '' Prediction failed: bad input''),
       Error ''Please check your input values and try again''] @
      sidebar, Completed) \<and>
   call_predict_proba (raising_model (Exc AttributeError ''no booster'')) default_inputs =
     Inl (Exc AttributeError ''no booster'') \<and>
   get_proba (raising_model (Exc AttributeError ''no booster'')) default_inputs = Inr 0"
proof -
  let ?v = "raising_model (Exc ValueError ''bad input'')"
  let ?a = "raising_model (Exc AttributeError ''no booster'')"
  have w: "widget_state (pressed_env x) = (\<lambda>label. None)" for x
    by (simp add: pressed_env_def)
  have i: "joblib_import (pressed_env x) = None" for x by (simp add: pressed_env_def)
  have l: "joblib_load (pressed_env x) = x" for x by (simp add: pressed_env_def)
  have b: "button_pressed (pressed_env x)" for x by (simp add: pressed_env_def)
  have cv: "call_predict_proba ?v (form_inputs (widget_state (pressed_env (Inr ?v)))) =
              Inl (Exc ValueError ''bad input'')"
    by (simp add: call_predict_proba_def raising_model_def)
  have ca: "call_predict_proba ?a (form_inputs (widget_state (pressed_env (Inr ?a)))) =
              Inl (Exc AttributeError ''no booster'')"
    by (simp add: call_predict_proba_def raising_model_def)
  have pa: "call_predict ?a df = Inr [0]" for df
    by (simp add: call_predict_def raising_model_def)
  from attribute_error_decides_fallback [OF i l b cv]
       attribute_error_decides_fallback [OF i l b ca] i l b cv ca
  show ?thesis
    by (simp add: w default_inputs_def pa getitem_def)
qed

end
